theory Spec2Isabelle
  imports Complex_Main "HOL-Library.Multiset"
begin

section \<open>JavaScript numbers\<close>

text \<open>
  A JavaScript \<^verbatim>\<open>number\<close> is an IEEE-754 binary64 value. The finite ones are
  modelled by the real number they denote; every arithmetic operation rounds the exact
  result to the nearest binary64 value, ties to even (\<open>dbl\<close>). A decimal literal of the
  source that is not itself a binary64 value (\<^verbatim>\<open>0.05\<close>, \<^verbatim>\<open>1.2\<close>) is written
  \<open>dbl 0.05\<close>; integers and dyadic literals such as \<^verbatim>\<open>0.25\<close> are exact and
  written as they are. Comparisons are exact. NaN and the infinities are not modelled:
  the distances of a similarity matrix are finite, and \<open>dbl\<close> is the IEEE rounding as
  long as the magnitude of the result stays below \<open>2 ^ 1024\<close>. The one division of the
  source divides by the constant \<open>20000\<close>.

  \<open>scale_up\<close> and \<open>scale_down\<close> find the binary exponent of a positive number,
  bounded to the exponent range of binary64 (below \<open>2 ^ - 1022\<close> the spacing is that of
  the subnormal numbers).
\<close>

fun scale_up :: "nat \<Rightarrow> real \<Rightarrow> int \<Rightarrow> int" where
  "scale_up 0 x e = e"
| "scale_up (Suc n) x e = (if x < 1 then scale_up n (2 * x) (e - 1) else e)"

fun scale_down :: "nat \<Rightarrow> real \<Rightarrow> int \<Rightarrow> int" where
  "scale_down 0 x e = e"
| "scale_down (Suc n) x e = (if 2 \<le> x then scale_down n (x / 2) (e + 1) else e)"

definition expo :: "real \<Rightarrow> int" where
  "expo x = (if \<bar>x\<bar> < 1 then scale_up 1022 \<bar>x\<bar> 0 else scale_down 1023 \<bar>x\<bar> 0)"

definition rne :: "real \<Rightarrow> int" where
  "rne y = (let f = \<lfloor>y\<rfloor>; r = y - of_int f in
            if r < 1 / 2 then f
            else if 1 / 2 < r then f + 1
            else if even f then f else f + 1)"

definition dbl :: "real \<Rightarrow> real" where
  "dbl x = (if x = 0 then 0
            else let u = 2 powi (expo x - 52) in of_int (rne (x / u)) * u)"

definition js_add :: "real \<Rightarrow> real \<Rightarrow> real" where
  "js_add a b = dbl (a + b)"

definition js_sub :: "real \<Rightarrow> real \<Rightarrow> real" where
  "js_sub a b = dbl (a - b)"

definition js_mul :: "real \<Rightarrow> real \<Rightarrow> real" where
  "js_mul a b = dbl (a * b)"

definition js_div :: "real \<Rightarrow> real \<Rightarrow> real" where
  "js_div a b = dbl (a / b)"

text \<open>
  \<^verbatim>\<open>Math.round\<close> rounds to the nearest integer, a tie towards plus infinity; that
  is \<^const>\<open>round\<close>. Truthiness of an optional string: \<^verbatim>\<open>undefined\<close>,
  \<^verbatim>\<open>null\<close> and the empty string are falsy.
\<close>

definition truthy :: "string option \<Rightarrow> bool" where
  "truthy s = (case s of None \<Rightarrow> False | Some v \<Rightarrow> v \<noteq> [])"


section \<open>The node registry (data/languageLocations)\<close>

text \<open>Strings outside ASCII are kept as their UTF-8 bytes.\<close>

record LanguageLocation =
  code :: string
  name :: string
  nameJa :: string
  lat :: real
  lng :: real
  country :: string
  isPrimary :: bool
  primaryCode :: "string option"
  isNonPUD :: "bool option"

definition LANGUAGE_LOCATIONS :: "LanguageLocation list" where
  "LANGUAGE_LOCATIONS =
  [
   \<lparr>code = ''ar'', name = ''Arabic'',
     nameJa = [CHR 0xE3, CHR 0x82, CHR 0xA2, CHR 0xE3, CHR 0x83, CHR 0xA9, CHR 0xE3, CHR 0x83, CHR 0x93, CHR 0xE3, CHR 0x82, CHR 0xA2, CHR 0xE8, CHR 0xAA, CHR 0x9E],
     lat = dbl 24.7136, lng = dbl 46.6753, country = ''Saudi Arabia'',
     isPrimary = True, primaryCode = None, isNonPUD = None\<rparr>,
   \<lparr>code = ''zh'', name = ''Chinese'',
     nameJa = [CHR 0xE4, CHR 0xB8, CHR 0xAD, CHR 0xE5, CHR 0x9B, CHR 0xBD, CHR 0xE8, CHR 0xAA, CHR 0x9E],
     lat = dbl 39.9042, lng = dbl 116.4074, country = ''China'',
     isPrimary = True, primaryCode = None, isNonPUD = None\<rparr>,
   \<lparr>code = ''cs'', name = ''Czech'',
     nameJa = [CHR 0xE3, CHR 0x83, CHR 0x81, CHR 0xE3, CHR 0x82, CHR 0xA7, CHR 0xE3, CHR 0x82, CHR 0xB3, CHR 0xE8, CHR 0xAA, CHR 0x9E],
     lat = dbl 50.0755, lng = dbl 14.4378, country = ''Czech Republic'',
     isPrimary = True, primaryCode = None, isNonPUD = None\<rparr>,
   \<lparr>code = ''en'', name = ''English'',
     nameJa = [CHR 0xE8, CHR 0x8B, CHR 0xB1, CHR 0xE8, CHR 0xAA, CHR 0x9E],
     lat = dbl 51.5074, lng = - dbl 0.1278, country = ''United Kingdom'',
     isPrimary = True, primaryCode = None, isNonPUD = None\<rparr>,
   \<lparr>code = ''fi'', name = ''Finnish'',
     nameJa = [CHR 0xE3, CHR 0x83, CHR 0x95, CHR 0xE3, CHR 0x82, CHR 0xA3, CHR 0xE3, CHR 0x83, CHR 0xB3, CHR 0xE3, CHR 0x83, CHR 0xA9, CHR 0xE3, CHR 0x83, CHR 0xB3, CHR 0xE3, CHR 0x83, CHR 0x89, CHR 0xE8, CHR 0xAA, CHR 0x9E],
     lat = dbl 60.1699, lng = dbl 24.9384, country = ''Finland'',
     isPrimary = True, primaryCode = None, isNonPUD = None\<rparr>,
   \<lparr>code = ''fr'', name = ''French'',
     nameJa = [CHR 0xE3, CHR 0x83, CHR 0x95, CHR 0xE3, CHR 0x83, CHR 0xA9, CHR 0xE3, CHR 0x83, CHR 0xB3, CHR 0xE3, CHR 0x82, CHR 0xB9, CHR 0xE8, CHR 0xAA, CHR 0x9E],
     lat = dbl 48.8566, lng = dbl 2.3522, country = ''France'',
     isPrimary = True, primaryCode = None, isNonPUD = None\<rparr>,
   \<lparr>code = ''gl'', name = ''Galician'',
     nameJa = [CHR 0xE3, CHR 0x82, CHR 0xAC, CHR 0xE3, CHR 0x83, CHR 0xAA, CHR 0xE3, CHR 0x82, CHR 0xB7, CHR 0xE3, CHR 0x82, CHR 0xA2, CHR 0xE8, CHR 0xAA, CHR 0x9E],
     lat = dbl 42.8782, lng = - dbl 8.5448, country = ''Spain (Galicia)'',
     isPrimary = True, primaryCode = None, isNonPUD = None\<rparr>,
   \<lparr>code = ''de'', name = ''German'',
     nameJa = [CHR 0xE3, CHR 0x83, CHR 0x89, CHR 0xE3, CHR 0x82, CHR 0xA4, CHR 0xE3, CHR 0x83, CHR 0x84, CHR 0xE8, CHR 0xAA, CHR 0x9E],
     lat = dbl 52.5200, lng = dbl 13.4050, country = ''Germany'',
     isPrimary = True, primaryCode = None, isNonPUD = None\<rparr>,
   \<lparr>code = ''hi'', name = ''Hindi'',
     nameJa = [CHR 0xE3, CHR 0x83, CHR 0x92, CHR 0xE3, CHR 0x83, CHR 0xB3, CHR 0xE3, CHR 0x83, CHR 0x87, CHR 0xE3, CHR 0x82, CHR 0xA3, CHR 0xE3, CHR 0x83, CHR 0xBC, CHR 0xE8, CHR 0xAA, CHR 0x9E],
     lat = dbl 28.6139, lng = dbl 77.2090, country = ''India'',
     isPrimary = True, primaryCode = None, isNonPUD = None\<rparr>,
   \<lparr>code = ''is'', name = ''Icelandic'',
     nameJa = [CHR 0xE3, CHR 0x82, CHR 0xA2, CHR 0xE3, CHR 0x82, CHR 0xA4, CHR 0xE3, CHR 0x82, CHR 0xB9, CHR 0xE3, CHR 0x83, CHR 0xA9, CHR 0xE3, CHR 0x83, CHR 0xB3, CHR 0xE3, CHR 0x83, CHR 0x89, CHR 0xE8, CHR 0xAA, CHR 0x9E],
     lat = dbl 64.1466, lng = - dbl 21.9426, country = ''Iceland'',
     isPrimary = True, primaryCode = None, isNonPUD = None\<rparr>,
   \<lparr>code = ''id'', name = ''Indonesian'',
     nameJa = [CHR 0xE3, CHR 0x82, CHR 0xA4, CHR 0xE3, CHR 0x83, CHR 0xB3, CHR 0xE3, CHR 0x83, CHR 0x89, CHR 0xE3, CHR 0x83, CHR 0x8D, CHR 0xE3, CHR 0x82, CHR 0xB7, CHR 0xE3, CHR 0x82, CHR 0xA2, CHR 0xE8, CHR 0xAA, CHR 0x9E],
     lat = - dbl 6.2088, lng = dbl 106.8456, country = ''Indonesia'',
     isPrimary = True, primaryCode = None, isNonPUD = None\<rparr>,
   \<lparr>code = ''it'', name = ''Italian'',
     nameJa = [CHR 0xE3, CHR 0x82, CHR 0xA4, CHR 0xE3, CHR 0x82, CHR 0xBF, CHR 0xE3, CHR 0x83, CHR 0xAA, CHR 0xE3, CHR 0x82, CHR 0xA2, CHR 0xE8, CHR 0xAA, CHR 0x9E],
     lat = dbl 41.9028, lng = dbl 12.4964, country = ''Italy'',
     isPrimary = True, primaryCode = None, isNonPUD = None\<rparr>,
   \<lparr>code = ''ja'', name = ''Japanese'',
     nameJa = [CHR 0xE6, CHR 0x97, CHR 0xA5, CHR 0xE6, CHR 0x9C, CHR 0xAC, CHR 0xE8, CHR 0xAA, CHR 0x9E],
     lat = dbl 35.6762, lng = dbl 139.6503, country = ''Japan'',
     isPrimary = True, primaryCode = None, isNonPUD = None\<rparr>,
   \<lparr>code = ''ko'', name = ''Korean'',
     nameJa = [CHR 0xE9, CHR 0x9F, CHR 0x93, CHR 0xE5, CHR 0x9B, CHR 0xBD, CHR 0xE8, CHR 0xAA, CHR 0x9E],
     lat = dbl 37.5665, lng = dbl 126.9780, country = ''South Korea'',
     isPrimary = True, primaryCode = None, isNonPUD = None\<rparr>,
   \<lparr>code = ''pt'', name = ''Portuguese'',
     nameJa = [CHR 0xE3, CHR 0x83, CHR 0x9D, CHR 0xE3, CHR 0x83, CHR 0xAB, CHR 0xE3, CHR 0x83, CHR 0x88, CHR 0xE3, CHR 0x82, CHR 0xAC, CHR 0xE3, CHR 0x83, CHR 0xAB, CHR 0xE8, CHR 0xAA, CHR 0x9E],
     lat = dbl 38.7223, lng = - dbl 9.1393, country = ''Portugal'',
     isPrimary = True, primaryCode = None, isNonPUD = None\<rparr>,
   \<lparr>code = ''ru'', name = ''Russian'',
     nameJa = [CHR 0xE3, CHR 0x83, CHR 0xAD, CHR 0xE3, CHR 0x82, CHR 0xB7, CHR 0xE3, CHR 0x82, CHR 0xA2, CHR 0xE8, CHR 0xAA, CHR 0x9E],
     lat = dbl 55.7558, lng = dbl 37.6173, country = ''Russia'',
     isPrimary = True, primaryCode = None, isNonPUD = None\<rparr>,
   \<lparr>code = ''es'', name = ''Spanish'',
     nameJa = [CHR 0xE3, CHR 0x82, CHR 0xB9, CHR 0xE3, CHR 0x83, CHR 0x9A, CHR 0xE3, CHR 0x82, CHR 0xA4, CHR 0xE3, CHR 0x83, CHR 0xB3, CHR 0xE8, CHR 0xAA, CHR 0x9E],
     lat = dbl 40.4168, lng = - dbl 3.7038, country = ''Spain'',
     isPrimary = True, primaryCode = None, isNonPUD = None\<rparr>,
   \<lparr>code = ''sv'', name = ''Swedish'',
     nameJa = [CHR 0xE3, CHR 0x82, CHR 0xB9, CHR 0xE3, CHR 0x82, CHR 0xA6, CHR 0xE3, CHR 0x82, CHR 0xA7, CHR 0xE3, CHR 0x83, CHR 0xBC, CHR 0xE3, CHR 0x83, CHR 0x87, CHR 0xE3, CHR 0x83, CHR 0xB3, CHR 0xE8, CHR 0xAA, CHR 0x9E],
     lat = dbl 59.3293, lng = dbl 18.0686, country = ''Sweden'',
     isPrimary = True, primaryCode = None, isNonPUD = None\<rparr>,
   \<lparr>code = ''th'', name = ''Thai'',
     nameJa = [CHR 0xE3, CHR 0x82, CHR 0xBF, CHR 0xE3, CHR 0x82, CHR 0xA4, CHR 0xE8, CHR 0xAA, CHR 0x9E],
     lat = dbl 13.7563, lng = dbl 100.5018, country = ''Thailand'',
     isPrimary = True, primaryCode = None, isNonPUD = None\<rparr>,
   \<lparr>code = ''tr'', name = ''Turkish'',
     nameJa = [CHR 0xE3, CHR 0x83, CHR 0x88, CHR 0xE3, CHR 0x83, CHR 0xAB, CHR 0xE3, CHR 0x82, CHR 0xB3, CHR 0xE8, CHR 0xAA, CHR 0x9E],
     lat = dbl 39.9334, lng = dbl 32.8597, country = ''Turkey'',
     isPrimary = True, primaryCode = None, isNonPUD = None\<rparr>,
   \<lparr>code = ''af'', name = ''Afrikaans'',
     nameJa = [CHR 0xE3, CHR 0x82, CHR 0xA2, CHR 0xE3, CHR 0x83, CHR 0x95, CHR 0xE3, CHR 0x83, CHR 0xAA, CHR 0xE3, CHR 0x82, CHR 0xAB, CHR 0xE3, CHR 0x83, CHR 0xBC, CHR 0xE3, CHR 0x83, CHR 0xB3, CHR 0xE3, CHR 0x82, CHR 0xB9, CHR 0xE8, CHR 0xAA, CHR 0x9E],
     lat = - dbl 25.7479, lng = dbl 28.2293, country = ''South Africa'',
     isPrimary = True, primaryCode = None, isNonPUD = Some True\<rparr>,
   \<lparr>code = ''fo'', name = ''Faroese'',
     nameJa = [CHR 0xE3, CHR 0x83, CHR 0x95, CHR 0xE3, CHR 0x82, CHR 0xA7, CHR 0xE3, CHR 0x83, CHR 0xAD, CHR 0xE3, CHR 0x83, CHR 0xBC, CHR 0xE8, CHR 0xAA, CHR 0x9E],
     lat = dbl 62.0107, lng = - dbl 6.7697, country = ''Faroe Islands'',
     isPrimary = True, primaryCode = None, isNonPUD = Some True\<rparr>,
   \<lparr>code = ''he'', name = ''Hebrew'',
     nameJa = [CHR 0xE3, CHR 0x83, CHR 0x98, CHR 0xE3, CHR 0x83, CHR 0x96, CHR 0xE3, CHR 0x83, CHR 0xA9, CHR 0xE3, CHR 0x82, CHR 0xA4, CHR 0xE8, CHR 0xAA, CHR 0x9E],
     lat = dbl 31.7683, lng = dbl 35.2137, country = ''Israel'',
     isPrimary = True, primaryCode = None, isNonPUD = Some True\<rparr>,
   \<lparr>code = ''ga'', name = ''Irish'',
     nameJa = [CHR 0xE3, CHR 0x82, CHR 0xA2, CHR 0xE3, CHR 0x82, CHR 0xA4, CHR 0xE3, CHR 0x83, CHR 0xAB, CHR 0xE3, CHR 0x83, CHR 0xA9, CHR 0xE3, CHR 0x83, CHR 0xB3, CHR 0xE3, CHR 0x83, CHR 0x89, CHR 0xE8, CHR 0xAA, CHR 0x9E],
     lat = dbl 53.3498, lng = - dbl 6.2603, country = ''Ireland'',
     isPrimary = True, primaryCode = None, isNonPUD = Some True\<rparr>,
   \<lparr>code = ''kpv'', name = ''Komi_Zyrian'',
     nameJa = [CHR 0xE3, CHR 0x82, CHR 0xB3, CHR 0xE3, CHR 0x83, CHR 0x9F, CHR 0xE3, CHR 0x83, CHR 0xBB, CHR 0xE3, CHR 0x82, CHR 0xB8, CHR 0xE3, CHR 0x83, CHR 0xAA, CHR 0xE3, CHR 0x82, CHR 0xA7, CHR 0xE3, CHR 0x83, CHR 0xB3, CHR 0xE8, CHR 0xAA, CHR 0x9E],
     lat = dbl 61.6640, lng = dbl 50.8283, country = ''Russia (Komi)'',
     isPrimary = True, primaryCode = None, isNonPUD = Some True\<rparr>,
   \<lparr>code = ''yrk'', name = ''Nenets'',
     nameJa = [CHR 0xE3, CHR 0x83, CHR 0x8D, CHR 0xE3, CHR 0x83, CHR 0x8D, CHR 0xE3, CHR 0x83, CHR 0x84, CHR 0xE8, CHR 0xAA, CHR 0x9E],
     lat = dbl 66.6644, lng = dbl 66.3858, country = ''Russia (Nenets)'',
     isPrimary = True, primaryCode = None, isNonPUD = Some True\<rparr>,
   \<lparr>code = ''no'', name = ''NO'',
     nameJa = [CHR 0xE3, CHR 0x83, CHR 0x8E, CHR 0xE3, CHR 0x83, CHR 0xAB, CHR 0xE3, CHR 0x82, CHR 0xA6, CHR 0xE3, CHR 0x82, CHR 0xA7, CHR 0xE3, CHR 0x83, CHR 0xBC, CHR 0xE8, CHR 0xAA, CHR 0x9E],
     lat = dbl 60.3913, lng = dbl 5.3221, country = ''Norway'',
     isPrimary = True, primaryCode = None, isNonPUD = Some True\<rparr>,
   \<lparr>code = ''sa'', name = ''Sanskrit'',
     nameJa = [CHR 0xE3, CHR 0x82, CHR 0xB5, CHR 0xE3, CHR 0x83, CHR 0xB3, CHR 0xE3, CHR 0x82, CHR 0xB9, CHR 0xE3, CHR 0x82, CHR 0xAF, CHR 0xE3, CHR 0x83, CHR 0xAA, CHR 0xE3, CHR 0x83, CHR 0x83, CHR 0xE3, CHR 0x83, CHR 0x88, CHR 0xE8, CHR 0xAA, CHR 0x9E],
     lat = dbl 28.6139, lng = dbl 77.2090, country = ''India'',
     isPrimary = True, primaryCode = None, isNonPUD = Some True\<rparr>,
   \<lparr>code = ''tl'', name = ''Tagalog'',
     nameJa = [CHR 0xE3, CHR 0x82, CHR 0xBF, CHR 0xE3, CHR 0x82, CHR 0xAC, CHR 0xE3, CHR 0x83, CHR 0xAD, CHR 0xE3, CHR 0x82, CHR 0xB0, CHR 0xE8, CHR 0xAA, CHR 0x9E],
     lat = dbl 14.5995, lng = dbl 120.9842, country = ''Philippines'',
     isPrimary = True, primaryCode = None, isNonPUD = Some True\<rparr>,
   \<lparr>code = ''ta'', name = ''Tamil'',
     nameJa = [CHR 0xE3, CHR 0x82, CHR 0xBF, CHR 0xE3, CHR 0x83, CHR 0x9F, CHR 0xE3, CHR 0x83, CHR 0xAB, CHR 0xE8, CHR 0xAA, CHR 0x9E],
     lat = dbl 13.0827, lng = dbl 80.2707, country = ''India (Tamil Nadu)'',
     isPrimary = True, primaryCode = None, isNonPUD = Some True\<rparr>,
   \<lparr>code = ''uz'', name = ''Uzbek'',
     nameJa = [CHR 0xE3, CHR 0x82, CHR 0xA6, CHR 0xE3, CHR 0x82, CHR 0xBA, CHR 0xE3, CHR 0x83, CHR 0x99, CHR 0xE3, CHR 0x82, CHR 0xAF, CHR 0xE8, CHR 0xAA, CHR 0x9E],
     lat = dbl 41.2995, lng = dbl 69.2401, country = ''Uzbekistan'',
     isPrimary = True, primaryCode = None, isNonPUD = Some True\<rparr>,
   \<lparr>code = ''vi'', name = ''Vietnamese'',
     nameJa = [CHR 0xE3, CHR 0x83, CHR 0x99, CHR 0xE3, CHR 0x83, CHR 0x88, CHR 0xE3, CHR 0x83, CHR 0x8A, CHR 0xE3, CHR 0x83, CHR 0xA0, CHR 0xE8, CHR 0xAA, CHR 0x9E],
     lat = dbl 21.0285, lng = dbl 105.8542, country = ''Vietnam'',
     isPrimary = True, primaryCode = None, isNonPUD = Some True\<rparr>,
   \<lparr>code = ''sah'', name = ''Yakut'',
     nameJa = [CHR 0xE3, CHR 0x83, CHR 0xA4, CHR 0xE3, CHR 0x82, CHR 0xAF, CHR 0xE3, CHR 0x83, CHR 0xBC, CHR 0xE3, CHR 0x83, CHR 0x88, CHR 0xE8, CHR 0xAA, CHR 0x9E],
     lat = dbl 62.0397, lng = dbl 129.7422, country = ''Russia (Sakha)'',
     isPrimary = True, primaryCode = None, isNonPUD = Some True\<rparr>,
   \<lparr>code = ''en-us'', name = ''English'',
     nameJa = [CHR 0xE8, CHR 0x8B, CHR 0xB1, CHR 0xE8, CHR 0xAA, CHR 0x9E],
     lat = dbl 38.9072, lng = - dbl 77.0369, country = ''United States'',
     isPrimary = False, primaryCode = Some ''en'', isNonPUD = None\<rparr>,
   \<lparr>code = ''en-au'', name = ''English'',
     nameJa = [CHR 0xE8, CHR 0x8B, CHR 0xB1, CHR 0xE8, CHR 0xAA, CHR 0x9E],
     lat = - dbl 33.8688, lng = dbl 151.2093, country = ''Australia'',
     isPrimary = False, primaryCode = Some ''en'', isNonPUD = None\<rparr>,
   \<lparr>code = ''pt-br'', name = ''Portuguese'',
     nameJa = [CHR 0xE3, CHR 0x83, CHR 0x9D, CHR 0xE3, CHR 0x83, CHR 0xAB, CHR 0xE3, CHR 0x83, CHR 0x88, CHR 0xE3, CHR 0x82, CHR 0xAC, CHR 0xE3, CHR 0x83, CHR 0xAB, CHR 0xE8, CHR 0xAA, CHR 0x9E],
     lat = - dbl 23.5505, lng = - dbl 46.6333, country = ''Brazil'',
     isPrimary = False, primaryCode = Some ''pt'', isNonPUD = None\<rparr>,
   \<lparr>code = ''es-mx'', name = ''Spanish'',
     nameJa = [CHR 0xE3, CHR 0x82, CHR 0xB9, CHR 0xE3, CHR 0x83, CHR 0x9A, CHR 0xE3, CHR 0x82, CHR 0xA4, CHR 0xE3, CHR 0x83, CHR 0xB3, CHR 0xE8, CHR 0xAA, CHR 0x9E],
     lat = dbl 19.4326, lng = - dbl 99.1332, country = ''Mexico'',
     isPrimary = False, primaryCode = Some ''es'', isNonPUD = None\<rparr>,
   \<lparr>code = ''es-ar'', name = ''Spanish'',
     nameJa = [CHR 0xE3, CHR 0x82, CHR 0xB9, CHR 0xE3, CHR 0x83, CHR 0x9A, CHR 0xE3, CHR 0x82, CHR 0xA4, CHR 0xE3, CHR 0x83, CHR 0xB3, CHR 0xE8, CHR 0xAA, CHR 0x9E],
     lat = - dbl 34.6037, lng = - dbl 58.3816, country = ''Argentina'',
     isPrimary = False, primaryCode = Some ''es'', isNonPUD = None\<rparr>,
   \<lparr>code = ''fr-ca'', name = ''French'',
     nameJa = [CHR 0xE3, CHR 0x83, CHR 0x95, CHR 0xE3, CHR 0x83, CHR 0xA9, CHR 0xE3, CHR 0x83, CHR 0xB3, CHR 0xE3, CHR 0x82, CHR 0xB9, CHR 0xE8, CHR 0xAA, CHR 0x9E],
     lat = dbl 45.5017, lng = - dbl 73.5673, country = ''Canada (Quebec)'',
     isPrimary = False, primaryCode = Some ''fr'', isNonPUD = None\<rparr>,
   \<lparr>code = ''ar-eg'', name = ''Arabic'',
     nameJa = [CHR 0xE3, CHR 0x82, CHR 0xA2, CHR 0xE3, CHR 0x83, CHR 0xA9, CHR 0xE3, CHR 0x83, CHR 0x93, CHR 0xE3, CHR 0x82, CHR 0xA2, CHR 0xE8, CHR 0xAA, CHR 0x9E],
     lat = dbl 30.0444, lng = dbl 31.2357, country = ''Egypt'',
     isPrimary = False, primaryCode = Some ''ar'', isNonPUD = None\<rparr>,
   \<lparr>code = ''zh-tw'', name = ''Chinese'',
     nameJa = [CHR 0xE4, CHR 0xB8, CHR 0xAD, CHR 0xE5, CHR 0x9B, CHR 0xBD, CHR 0xE8, CHR 0xAA, CHR 0x9E],
     lat = dbl 25.0330, lng = dbl 121.5654, country = ''Taiwan'',
     isPrimary = False, primaryCode = Some ''zh'', isNonPUD = None\<rparr>
  ]"

text \<open>
  The functions of the source read the constant \<open>LANGUAGE_LOCATIONS\<close>; here the table is
  their first argument \<open>allNodes\<close>, so that statements hold for every registry and can be
  run on small ones.
\<close>

definition getLanguageByCode :: "LanguageLocation list \<Rightarrow> string \<Rightarrow> LanguageLocation option" where
  "getLanguageByCode allNodes c = find (\<lambda>lang. code lang = c) allNodes"

definition getLanguageByName :: "LanguageLocation list \<Rightarrow> string \<Rightarrow> LanguageLocation option" where
  "getLanguageByName allNodes n = find (\<lambda>lang. name lang = n \<and> isPrimary lang) allNodes"

definition getPrimaryLanguages :: "LanguageLocation list \<Rightarrow> LanguageLocation list" where
  "getPrimaryLanguages allNodes = filter isPrimary allNodes"


section \<open>Globe.tsx\<close>

datatype category = VeryClose | Close | SlightlyClose | SlightlyFar | Far | VeryFar | Same

record DistanceFilter =
  veryClose :: bool
  close :: bool
  slightlyClose :: bool
  slightlyFar :: bool
  far :: bool
  veryFar :: bool

text \<open>\<^verbatim>\<open>distanceFilter[category]\<close>; the filter has no key \<^verbatim>\<open>same\<close>.\<close>

fun filterAt :: "DistanceFilter \<Rightarrow> category \<Rightarrow> bool" where
  "filterAt f VeryClose = veryClose f"
| "filterAt f Close = close f"
| "filterAt f SlightlyClose = slightlyClose f"
| "filterAt f SlightlyFar = slightlyFar f"
| "filterAt f Far = far f"
| "filterAt f VeryFar = veryFar f"
| "filterAt f Same = False"

text \<open>The colour string \<^verbatim>\<open>rgba(r, g, b, a)\<close>, as its four numbers.\<close>

record rgba =
  red :: int
  green :: int
  blue :: int
  alpha :: real

record ArcData =
  startLat :: real
  startLng :: real
  endLat :: real
  endLng :: real
  color :: rgba
  lang1 :: string
  lang2 :: string
  distance :: real
  geoDistance :: real
  category :: category
  clickable :: bool
  node1Code :: string
  node2Code :: string

text \<open>
  \<^verbatim>\<open>Math.atan2\<close>, and the haversine distance. ECMAScript leaves the accuracy of
  \<^verbatim>\<open>Math.sin\<close>, \<^verbatim>\<open>Math.cos\<close>, \<^verbatim>\<open>Math.sqrt\<close> and \<^verbatim>\<open>Math.atan2\<close>
  to the implementation, so this one function is modelled with the mathematical
  functions, unrounded. It only fills the field \<open>geoDistance\<close> of an arc.
\<close>

definition atan2 :: "real \<Rightarrow> real \<Rightarrow> real" where
  "atan2 y x =
     (if 0 < x then arctan (y / x)
      else if x < 0 then (if 0 \<le> y then arctan (y / x) + pi else arctan (y / x) - pi)
      else if 0 < y then pi / 2
      else if y < 0 then - (pi / 2)
      else 0)"

definition calculateGeoDistance :: "real \<Rightarrow> real \<Rightarrow> real \<Rightarrow> real \<Rightarrow> real" where
  "calculateGeoDistance lat1 lng1 lat2 lng2 =
     (let R = 6371;
          dLat = ((lat2 - lat1) * pi) / 180;
          dLng = ((lng2 - lng1) * pi) / 180;
          a = sin (dLat / 2) * sin (dLat / 2) +
              cos ((lat1 * pi) / 180) * cos ((lat2 * pi) / 180) *
              sin (dLng / 2) * sin (dLng / 2);
          c = 2 * atan2 (sqrt a) (sqrt (1 - a))
      in R * c)"

definition normalizeGeoDistance :: "real \<Rightarrow> real" where
  "normalizeGeoDistance km = min (js_div km 20000) 1"

definition getDistanceCategory :: "real \<Rightarrow> category" where
  "getDistanceCategory d =
     (if d < dbl 0.05 then VeryClose
      else if d < dbl 0.1 then Close
      else if d < dbl 0.3 then SlightlyClose
      else if d < 0.5 then SlightlyFar
      else if d < dbl 0.7 then Far
      else VeryFar)"

definition getDistanceOpacity :: "real \<Rightarrow> real" where
  "getDistanceOpacity d = max (dbl 0.2) (js_sub (dbl 0.8) (js_mul d (dbl 1.2)))"

definition getDistanceColor :: "real \<Rightarrow> real \<Rightarrow> rgba" where
  "getDistanceColor d opacity =
     (let t = min (max (js_mul d 2) 0) 1 in
      if t < 0.25 then
        \<lparr>red = round (js_add 59 (js_mul (js_mul t 4) (js_sub 34 59))),
         green = round (js_add 130 (js_mul (js_mul t 4) (js_sub 197 130))),
         blue = round (js_add 246 (js_mul (js_mul t 4) (js_sub 94 246))),
         alpha = opacity\<rparr>
      else if t < 0.5 then
        (let tt = js_mul (js_sub t 0.25) 4 in
         \<lparr>red = round (js_add 34 (js_mul tt (js_sub 74 34))),
          green = round (js_add 197 (js_mul tt (js_sub 222 197))),
          blue = round (js_add 94 (js_mul tt (js_sub 128 94))),
          alpha = opacity\<rparr>)
      else if t < 0.75 then
        (let tt = js_mul (js_sub t 0.5) 4 in
         \<lparr>red = round (js_add 74 (js_mul tt (js_sub 250 74))),
          green = round (js_add 222 (js_mul tt (js_sub 204 222))),
          blue = round (js_add 128 (js_mul tt (js_sub 21 128))),
          alpha = opacity\<rparr>)
      else
        (let tt = js_mul (js_sub t 0.75) 4 in
         \<lparr>red = round (js_add 250 (js_mul tt (js_sub 239 250))),
          green = round (js_add 204 (js_mul tt (js_sub 68 204))),
          blue = round (js_add 21 (js_mul tt (js_sub 68 21))),
          alpha = opacity\<rparr>))"

definition getArcAltitude :: "real \<Rightarrow> real" where
  "getArcAltitude geoDistanceNormalized = js_add (dbl 0.02) (js_mul geoDistanceNormalized (dbl 0.35))"

text \<open>
  The test that two nodes are nodes of one language; the source writes it out in both
  iterations of \<^verbatim>\<open>arcsData\<close>.
\<close>

definition sameLanguagePair :: "LanguageLocation \<Rightarrow> LanguageLocation \<Rightarrow> bool" where
  "sameLanguagePair node1 node2 \<longleftrightarrow>
     primaryCode node1 = Some (code node2) \<or>
     primaryCode node2 = Some (code node1) \<or>
     (truthy (primaryCode node1) \<and> primaryCode node1 = primaryCode node2)"

text \<open>
  The name under which a node is looked up in the matrix: its own when it is primary,
  else the name of the first node whose code is its \<open>primaryCode\<close>
  (\<^verbatim>\<open>lang1Name\<close>, \<^verbatim>\<open>lang2Name\<close>, \<^verbatim>\<open>selectedLangName\<close>, \<^verbatim>\<open>nodeLangName\<close>).
\<close>

definition mainLanguageName :: "LanguageLocation list \<Rightarrow> LanguageLocation \<Rightarrow> string option" where
  "mainLanguageName allNodes node =
     (if isPrimary node then Some (name node)
      else map_option name (find (\<lambda>l. Some (code l) = primaryCode node) allNodes))"

type_synonym SimilarityMatrix = "string \<rightharpoonup> (string \<rightharpoonup> real)"

text \<open>The pairs \<open>(allNodes[i], allNodes[j])\<close> with \<open>i < j\<close>, in the order of the nested iteration.\<close>

fun pairs :: "'a list \<Rightarrow> ('a \<times> 'a) list" where
  "pairs [] = []"
| "pairs (x # xs) = map (Pair x) xs @ pairs xs"

text \<open>The body of the first loop: the arc pushed for a pair, if any.\<close>

definition sameLanguageArc :: "LanguageLocation \<Rightarrow> LanguageLocation \<Rightarrow> ArcData option" where
  "sameLanguageArc node1 node2 =
     (if sameLanguagePair node1 node2 then
        (let geoDist = calculateGeoDistance (lat node1) (lng node1) (lat node2) (lng node2);
             geoDistanceNorm = normalizeGeoDistance geoDist
         in Some \<lparr>startLat = lat node1, startLng = lng node1,
                   endLat = lat node2, endLng = lng node2,
                   color = \<lparr>red = 148, green = 163, blue = 184, alpha = dbl 0.2\<rparr>,
                   lang1 = name node1, lang2 = name node2,
                   distance = 0, geoDistance = geoDistanceNorm,
                   category = Same, clickable = False,
                   node1Code = code node1, node2Code = code node2\<rparr>)
      else None)"

text \<open>The body of the second loop; every \<^verbatim>\<open>continue\<close> is a \<open>None\<close>.\<close>

definition similarityArc ::
  "LanguageLocation list \<Rightarrow> SimilarityMatrix \<Rightarrow> DistanceFilter \<Rightarrow> string option \<Rightarrow>
   LanguageLocation \<Rightarrow> LanguageLocation \<Rightarrow> ArcData option" where
  "similarityArc allNodes similarityData distanceFilter targetNodeCode node1 node2 =
     (if truthy targetNodeCode \<and>
         Some (code node1) \<noteq> targetNodeCode \<and> Some (code node2) \<noteq> targetNodeCode
      then None
      else if sameLanguagePair node1 node2 then None
      else
        (let lang1Name = mainLanguageName allNodes node1;
             lang2Name = mainLanguageName allNodes node2
         in if \<not> truthy lang1Name \<or> \<not> truthy lang2Name then None
            else
              (case similarityData (the lang1Name) of
                 None \<Rightarrow> None
               | Some row \<Rightarrow>
                   (case row (the lang2Name) of
                      None \<Rightarrow> None
                    | Some d \<Rightarrow>
                        (let cat = getDistanceCategory d in
                         if \<not> truthy targetNodeCode \<and> \<not> filterAt distanceFilter cat then None
                         else
                           (let geoDist = calculateGeoDistance
                                            (lat node1) (lng node1) (lat node2) (lng node2);
                                geoDistanceNorm = normalizeGeoDistance geoDist;
                                opacity = getDistanceOpacity d
                            in Some \<lparr>startLat = lat node1, startLng = lng node1,
                                      endLat = lat node2, endLng = lng node2,
                                      color = getDistanceColor d opacity,
                                      lang1 = name node1, lang2 = name node2,
                                      distance = d, geoDistance = geoDistanceNorm,
                                      category = cat, clickable = True,
                                      node1Code = code node1, node2Code = code node2\<rparr>))))))"

definition arcsData ::
  "LanguageLocation list \<Rightarrow> SimilarityMatrix \<Rightarrow> DistanceFilter \<Rightarrow> string option \<Rightarrow> ArcData list" where
  "arcsData allNodes similarityData distanceFilter selectedNodeCode =
     List.map_filter (\<lambda>(node1, node2). sameLanguageArc node1 node2) (pairs allNodes) @
     List.map_filter
       (\<lambda>(node1, node2).
          similarityArc allNodes similarityData distanceFilter selectedNodeCode node1 node2)
       (pairs allNodes)"


section \<open>LanguageSimilarityPanel.tsx\<close>

record SimilarityItem =
  itemCode :: string
  itemName :: string
  itemNameJa :: string
  itemCountry :: string
  itemSimilarity :: real
  itemDistance :: real

text \<open>The body of the loop over the nodes: the item pushed for a node, if any.\<close>

definition similarityItem ::
  "LanguageLocation list \<Rightarrow> string \<Rightarrow> LanguageLocation \<Rightarrow> string \<Rightarrow> SimilarityMatrix \<Rightarrow>
   LanguageLocation \<Rightarrow> SimilarityItem option" where
  "similarityItem allNodes selectedNodeCode selectedNode selectedLangName similarityData node =
     (if code node = selectedNodeCode then None
      else if name node = name selectedNode then None
      else if primaryCode node = Some selectedNodeCode then None
      else if truthy (primaryCode selectedNode) \<and> Some (code node) = primaryCode selectedNode
        then None
      else if truthy (primaryCode selectedNode) \<and> primaryCode node = primaryCode selectedNode
        then None
      else
        (let nodeLangName = mainLanguageName allNodes node
         in if \<not> truthy nodeLangName then None
            else
              (case similarityData selectedLangName of
                 None \<Rightarrow> None
               | Some row \<Rightarrow>
                   (case row (the nodeLangName) of
                      None \<Rightarrow> None
                    | Some d \<Rightarrow>
                        Some \<lparr>itemCode = code node, itemName = name node,
                              itemNameJa = nameJa node, itemCountry = country node,
                              itemSimilarity = js_sub 1 d, itemDistance = d\<rparr>))))"

text \<open>
  \<^verbatim>\<open>items.sort((a, b) => a.distance - b.distance)\<close>: the sort of the language is stable,
  and the difference of two finite distances is negative, zero or positive as they
  compare, so the result is the stable sort by distance, \<^const>\<open>sort_key\<close>.
\<close>

definition sortedSimilarities ::
  "LanguageLocation list \<Rightarrow> string \<Rightarrow> SimilarityMatrix \<Rightarrow> SimilarityItem list" where
  "sortedSimilarities allNodes selectedNodeCode similarityData =
     (case find (\<lambda>l. code l = selectedNodeCode) allNodes of
        None \<Rightarrow> []
      | Some selectedNode \<Rightarrow>
          (let selectedLangName = mainLanguageName allNodes selectedNode
           in if \<not> truthy selectedLangName \<or> similarityData (the selectedLangName) = None
              then []
              else sort_key itemDistance
                     (List.map_filter
                        (similarityItem allNodes selectedNodeCode selectedNode
                           (the selectedLangName) similarityData)
                        allNodes)))"


section \<open>LanguagePopup.tsx\<close>










section \<open>GlobePage.tsx and the click handlers\<close>

text \<open>
  The state of the page, and the location of the router, which \<^verbatim>\<open>navigate\<close> sets.
\<close>

record GlobePageState =
  selectedNodeCode :: "string option"
  popupLanguage :: "string option"
  distanceFilter :: DistanceFilter
  location :: string

definition handleLanguageClick :: "string \<Rightarrow> string \<Rightarrow> GlobePageState \<Rightarrow> GlobePageState" where
  "handleLanguageClick langName nodeCode st =
     (if selectedNodeCode st = Some nodeCode then st\<lparr>selectedNodeCode := None\<rparr>
      else st\<lparr>selectedNodeCode := Some nodeCode\<rparr>)"

definition handleClearSelection :: "GlobePageState \<Rightarrow> GlobePageState" where
  "handleClearSelection st = st\<lparr>selectedNodeCode := None\<rparr>"

definition navigate :: "string \<Rightarrow> GlobePageState \<Rightarrow> GlobePageState" where
  "navigate path st = st\<lparr>location := path\<rparr>"

definition handleArcClick :: "LanguageLocation list \<Rightarrow> ArcData \<Rightarrow> GlobePageState \<Rightarrow> GlobePageState" where
  "handleArcClick allNodes arc st =
     (if \<not> clickable arc then st
      else
        (case (getLanguageByName allNodes (lang1 arc), getLanguageByName allNodes (lang2 arc)) of
           (Some l1, Some l2) \<Rightarrow> navigate (''/compare/'' @ code l1 @ ''/'' @ code l2) st
         | _ \<Rightarrow> st))"


section \<open>Example data\<close>

text \<open>
  Five rows of \<open>LANGUAGE_LOCATIONS\<close>, in the order of the table, as a small registry; the
  initial filter of \<^verbatim>\<open>GlobePage\<close>; and small tables.
\<close>

definition node_zh :: LanguageLocation where
  "node_zh =
     \<lparr>code = ''zh'', name = ''Chinese'',
      nameJa = [CHR 0xE4, CHR 0xB8, CHR 0xAD, CHR 0xE5, CHR 0x9B, CHR 0xBD, CHR 0xE8, CHR 0xAA, CHR 0x9E],
      lat = dbl 39.9042, lng = dbl 116.4074, country = ''China'',
      isPrimary = True, primaryCode = None, isNonPUD = None\<rparr>"

definition node_en :: LanguageLocation where
  "node_en =
     \<lparr>code = ''en'', name = ''English'',
      nameJa = [CHR 0xE8, CHR 0x8B, CHR 0xB1, CHR 0xE8, CHR 0xAA, CHR 0x9E],
      lat = dbl 51.5074, lng = - dbl 0.1278, country = ''United Kingdom'',
      isPrimary = True, primaryCode = None, isNonPUD = None\<rparr>"

definition node_ja :: LanguageLocation where
  "node_ja =
     \<lparr>code = ''ja'', name = ''Japanese'',
      nameJa = [CHR 0xE6, CHR 0x97, CHR 0xA5, CHR 0xE6, CHR 0x9C, CHR 0xAC, CHR 0xE8, CHR 0xAA, CHR 0x9E],
      lat = dbl 35.6762, lng = dbl 139.6503, country = ''Japan'',
      isPrimary = True, primaryCode = None, isNonPUD = None\<rparr>"

definition node_ko :: LanguageLocation where
  "node_ko =
     \<lparr>code = ''ko'', name = ''Korean'',
      nameJa = [CHR 0xE9, CHR 0x9F, CHR 0x93, CHR 0xE5, CHR 0x9B, CHR 0xBD, CHR 0xE8, CHR 0xAA, CHR 0x9E],
      lat = dbl 37.5665, lng = dbl 126.9780, country = ''South Korea'',
      isPrimary = True, primaryCode = None, isNonPUD = None\<rparr>"

definition node_en_us :: LanguageLocation where
  "node_en_us =
     \<lparr>code = ''en-us'', name = ''English'',
      nameJa = [CHR 0xE8, CHR 0x8B, CHR 0xB1, CHR 0xE8, CHR 0xAA, CHR 0x9E],
      lat = dbl 38.9072, lng = - dbl 77.0369, country = ''United States'',
      isPrimary = False, primaryCode = Some ''en'', isNonPUD = None\<rparr>"

definition exampleNodes :: "LanguageLocation list" where
  "exampleNodes = [node_zh, node_en, node_ja, node_ko, node_en_us]"

definition initialDistanceFilter :: DistanceFilter where
  "initialDistanceFilter =
     \<lparr>veryClose = True, close = True, slightlyClose = True,
      slightlyFar = False, far = False, veryFar = False\<rparr>"

definition onlyVeryFar :: DistanceFilter where
  "onlyVeryFar =
     \<lparr>veryClose = False, close = False, slightlyClose = False,
      slightlyFar = False, far = False, veryFar = True\<rparr>"

definition exampleMatrix :: SimilarityMatrix where
  "exampleMatrix =
     [''Japanese'' \<mapsto> [''English'' \<mapsto> dbl 0.82],
      ''English'' \<mapsto> [''Japanese'' \<mapsto> dbl 0.82]]"

definition oneWayMatrix :: SimilarityMatrix where
  "oneWayMatrix = [''Japanese'' \<mapsto> [''English'' \<mapsto> dbl 0.82]]"

definition rankingMatrix :: SimilarityMatrix where
  "rankingMatrix =
     [''English'' \<mapsto>
        [''English'' \<mapsto> 0, ''Japanese'' \<mapsto> dbl 0.02,
         ''Chinese'' \<mapsto> dbl 0.1, ''Korean'' \<mapsto> dbl 0.4]]"


definition initialState :: GlobePageState where
  "initialState =
     \<lparr>selectedNodeCode = None, popupLanguage = None,
      distanceFilter = initialDistanceFilter, location = ''/''\<rparr>"


section \<open>Evaluating binary64 arithmetic\<close>

text \<open>
  With these equations the simplifier computes \<open>dbl\<close> at a numeral: the scaling functions
  stop as soon as the number is normalised.
\<close>

lemma scale_up_numeral:
  "scale_up (numeral k) x e = (if x < 1 then scale_up (pred_numeral k) (2 * x) (e - 1) else e)"
  by (simp add: numeral_eq_Suc)

lemma scale_down_numeral:
  "scale_down (numeral k) x e =
     (if 2 \<le> x then scale_down (pred_numeral k) (x / 2) (e + 1) else e)"
  by (simp add: numeral_eq_Suc)

lemmas dbl_eval =
  dbl_def expo_def rne_def scale_up_numeral scale_down_numeral Let_def power_int_minus
  js_add_def js_sub_def js_mul_def js_div_def

text \<open>The binary64 values of the decimal literals of the source.\<close>

lemma dbl_005: "dbl 0.05 = 3602879701896397 / 72057594037927936"
  by (simp add: dbl_eval)

lemma dbl_01: "dbl 0.1 = 3602879701896397 / 36028797018963968"
  by (simp add: dbl_eval)

lemma dbl_02: "dbl 0.2 = 3602879701896397 / 18014398509481984"
  by (simp add: dbl_eval)

lemma dbl_03: "dbl 0.3 = 5404319552844595 / 18014398509481984"
  by (simp add: dbl_eval)

lemma dbl_07: "dbl 0.7 = 3152519739159347 / 4503599627370496"
  by (simp add: dbl_eval)

lemma dbl_08: "dbl 0.8 = 3602879701896397 / 4503599627370496"
  by (simp add: dbl_eval)

lemma dbl_12: "dbl 1.2 = 5404319552844595 / 4503599627370496"
  by (simp add: dbl_eval)

text \<open>
  Rounding keeps a number that is not positive from becoming positive, and a number that
  is at least \<open>1\<close> from falling below \<open>1\<close>; so \<open>d * 2\<close> is clamped to \<open>0\<close> for
  \<open>d \<le> 0\<close> and to \<open>1\<close> for \<open>d \<ge> 0.5\<close>.
\<close>

lemma rne_ge_floor: "\<lfloor>y\<rfloor> \<le> rne y"
  by (simp add: rne_def Let_def)

lemma rne_nonpos: "y \<le> 0 \<Longrightarrow> rne y \<le> 0"
proof -
  assume y: "y \<le> 0"
  show ?thesis
  proof (cases "\<lfloor>y\<rfloor> = 0")
    case True
    then have "0 \<le> y" by (simp add: floor_eq_iff)
    with y have "y = 0" by simp
    then show ?thesis by (simp add: rne_def)
  next
    case False
    from floor_mono [OF y] have "\<lfloor>y\<rfloor> \<le> 0" by (simp only: floor_zero)
    with False have "\<lfloor>y\<rfloor> + 1 \<le> 0" by linarith
    then show ?thesis by (simp add: rne_def Let_def)
  qed
qed

lemma dbl_nonpos: "x \<le> 0 \<Longrightarrow> dbl x \<le> 0"
proof -
  assume x: "x \<le> 0"
  have u: "(0::real) < 2 powi (expo x - 52)" by simp
  with x have "x / 2 powi (expo x - 52) \<le> 0"
    by (simp add: divide_le_0_iff)
  then have "rne (x / 2 powi (expo x - 52)) \<le> 0" by (rule rne_nonpos)
  then have "real_of_int (rne (x / 2 powi (expo x - 52))) * 2 powi (expo x - 52) \<le> 0"
    using u by (simp add: mult_le_0_iff)
  then show ?thesis by (simp add: dbl_def Let_def)
qed

lemma scale_down_bounds:
  "1 \<le> x \<Longrightarrow> 2 powi (scale_down n x e - e) \<le> x \<and> e \<le> scale_down n x e"
proof (induction n arbitrary: x e)
  case 0
  then show ?case by simp
next
  case (Suc n)
  show ?case
  proof (cases "2 \<le> x")
    case True
    then have "1 \<le> x / 2" by simp
    from Suc.IH [OF this, of "e + 1"]
    have ih: "2 powi (scale_down n (x / 2) (e + 1) - (e + 1)) \<le> x / 2"
      "e + 1 \<le> scale_down n (x / 2) (e + 1)"
      by simp_all
    have "(2::real) powi (scale_down n (x / 2) (e + 1) - e) =
          2 * 2 powi (scale_down n (x / 2) (e + 1) - (e + 1))"
      using power_int_add [of "2::real" 1 "scale_down n (x / 2) (e + 1) - (e + 1)"]
      by simp
    with ih True show ?thesis by simp
  next
    case False
    with Suc.prems show ?thesis by simp
  qed
qed

lemma dbl_ge_one: "1 \<le> x \<Longrightarrow> 1 \<le> dbl x"
proof -
  assume x: "1 \<le> x"
  define e where "e = expo x"
  from x have "e = scale_down 1023 x 0" by (simp add: e_def expo_def)
  with scale_down_bounds [OF x, of 1023 0] have e: "2 powi e \<le> x" "0 \<le> e"
    by simp_all
  define u :: real where "u = 2 powi (e - 52)"
  have u: "0 < u" by (simp add: u_def)
  have "(2::real) powi e = 2 powi 52 * 2 powi (e - 52)"
    using power_int_add [of "2::real" 52 "e - 52"] by simp
  then have pe: "2 powi e = 2 ^ 52 * u" by (simp add: u_def)
  with e(1) u have "2 ^ 52 \<le> x / u" by (simp add: pos_le_divide_eq)
  then have "real_of_int (2 ^ 52) \<le> x / u" by simp
  then have "2 ^ 52 \<le> \<lfloor>x / u\<rfloor>" by (simp only: le_floor_iff)
  with rne_ge_floor [of "x / u"] have "2 ^ 52 \<le> rne (x / u)" by linarith
  then have "real_of_int (2 ^ 52) \<le> real_of_int (rne (x / u))" by (simp only: of_int_le_iff)
  with u have "2 ^ 52 * u \<le> real_of_int (rne (x / u)) * u" by simp
  with pe have "2 powi e \<le> real_of_int (rne (x / u)) * u" by simp
  moreover from e(2) have "(1::real) \<le> 2 powi e" by simp
  moreover from x have "dbl x = real_of_int (rne (x / u)) * u"
    by (simp add: dbl_def Let_def u_def e_def)
  ultimately show ?thesis by simp
qed

lemma clamp_low: "d \<le> 0 \<Longrightarrow> min (max (js_mul d 2) 0) 1 = 0"
proof -
  assume "d \<le> 0"
  then have "d * 2 \<le> 0" by simp
  then have "js_mul d 2 \<le> 0" unfolding js_mul_def by (rule dbl_nonpos)
  then show ?thesis by simp
qed

lemma clamp_high: "0.5 \<le> d \<Longrightarrow> min (max (js_mul d 2) 0) 1 = 1"
proof -
  assume "0.5 \<le> d"
  then have "1 \<le> d * 2" by simp
  then have "1 \<le> js_mul d 2" unfolding js_mul_def by (rule dbl_ge_one)
  then show ?thesis by simp
qed

text \<open>
  The error of the arithmetic. The binary64 value of a number of magnitude below
  \<open>1024\<close> is within \<open>1 / 2 ^ 44\<close> of it, and \<^verbatim>\<open>Math.round\<close> moves a number by at
  most \<open>1/2\<close>. So a channel \<^verbatim>\<open>Math.round(a + tt * (b - a))\<close>, computed in binary64 with
  \<open>tt = (t - q) * 4\<close>, is within \<open>1/2 + 1 / 2 ^ 30\<close> of the exact linear interpolant
  \<open>a + (t - q) / 0.25 * (b - a)\<close>.
\<close>

lemma scale_up_le: "scale_up n x e \<le> e"
proof (induction n arbitrary: x e)
  case 0
  then show ?case by simp
next
  case (Suc n)
  from Suc.IH [of "2 * x" "e - 1"] show ?case by simp
qed

lemma powi2_less_imp: "(2::real) powi a < 2 powi b \<Longrightarrow> a < b"
proof (rule ccontr)
  assume l: "(2::real) powi a < 2 powi b" and "\<not> a < b"
  then have "b \<le> a" by simp
  then have "(2::real) powi b \<le> 2 powi a" by (intro power_int_increasing) simp_all
  with l show False by simp
qed

lemma expo_le_9: "\<bar>x\<bar> < 1024 \<Longrightarrow> expo x \<le> 9"
proof (cases "\<bar>x\<bar> < 1")
  case True
  with scale_up_le [of 1022 "\<bar>x\<bar>" 0] show ?thesis by (simp add: expo_def)
next
  case False
  assume b: "\<bar>x\<bar> < 1024"
  from False have x: "1 \<le> \<bar>x\<bar>" by simp
  from scale_down_bounds [OF x, of 1023 0] False
  have "2 powi expo x \<le> \<bar>x\<bar>" by (simp add: expo_def)
  with b have "(2::real) powi expo x < 2 powi 10" by simp
  then have "expo x < 10" by (rule powi2_less_imp)
  then show ?thesis by simp
qed

lemma rne_err: "\<bar>real_of_int (rne y) - y\<bar> \<le> 1 / 2"
proof -
  have "real_of_int \<lfloor>y\<rfloor> \<le> y" "y < real_of_int \<lfloor>y\<rfloor> + 1"
    by linarith+
  then show ?thesis
    by (auto simp: rne_def Let_def)
qed

lemma dbl_err:
  assumes "\<bar>x\<bar> < 1024"
  shows "\<bar>dbl x - x\<bar> \<le> 1 / 2 ^ 44"
proof (cases "x = 0")
  case True
  then show ?thesis by (simp add: dbl_def)
next
  case False
  define u :: real where "u = 2 powi (expo x - 52)"
  have u: "0 < u" by (simp add: u_def)
  from expo_le_9 [OF assms] have "expo x - 52 \<le> - 43" by simp
  then have "u \<le> 2 powi (- 43)"
    unfolding u_def by (intro power_int_increasing) simp_all
  then have ub: "u \<le> 1 / 2 ^ 43" by (simp add: power_int_minus field_simps)
  from False have d: "dbl x = real_of_int (rne (x / u)) * u"
    by (simp add: dbl_def Let_def u_def)
  from u have "dbl x - x = (real_of_int (rne (x / u)) - x / u) * u"
    by (simp add: d field_simps)
  then have "\<bar>dbl x - x\<bar> = \<bar>real_of_int (rne (x / u)) - x / u\<bar> * u"
    using u by (simp add: abs_mult)
  also have "\<dots> \<le> (1 / 2) * u"
    using rne_err [of "x / u"] u by (intro mult_right_mono) simp_all
  also have "\<dots> \<le> (1 / 2) * (1 / 2 ^ 43)"
    using ub by simp
  finally show ?thesis by simp
qed

lemma round_err: "\<bar>real_of_int (round y) - y\<bar> \<le> 1 / 2"
  using of_int_round_abs_le [of y] by simp

lemma abs_triangle3:
  fixes x y r :: real
  shows "\<bar>x - y\<bar> \<le> p \<Longrightarrow> \<bar>r - x\<bar> \<le> h \<Longrightarrow> p \<le> q \<Longrightarrow> \<bar>r - y\<bar> \<le> h + q"
  by linarith

lemma abs_triangle4:
  fixes x y z r :: real
  shows "\<bar>x - y\<bar> \<le> p \<Longrightarrow> \<bar>y - z\<bar> \<le> p' \<Longrightarrow> \<bar>r - x\<bar> \<le> h \<Longrightarrow> p' + p \<le> q \<Longrightarrow>
    \<bar>r - z\<bar> \<le> h + q"
  by linarith


lemma lerp_rounded:
  assumes s: "\<bar>s\<bar> \<le> 1 / 2" and a: "\<bar>a\<bar> \<le> 256" and c: "\<bar>c\<bar> \<le> 200"
  shows "\<bar>js_add a (js_mul (js_mul s 4) c) - (a + s * 4 * c)\<bar> \<le> 1 / 2 ^ 35"
proof -
  define e1 where "e1 = js_mul s 4"
  define e2 where "e2 = js_mul e1 c"
  define e3 where "e3 = js_add a e2"
  from s have "\<bar>s * 4\<bar> < 1024" by simp
  from dbl_err [OF this] have 1: "\<bar>e1 - s * 4\<bar> \<le> 1 / 2 ^ 44"
    by (simp add: e1_def js_mul_def)
  have small: "(1::real) / 2 ^ 44 \<le> 1 / 8" by simp
  from 1 s small have b1: "\<bar>e1\<bar> \<le> 3" by linarith
  have "\<bar>e1 * c\<bar> = \<bar>e1\<bar> * \<bar>c\<bar>" by (rule abs_mult)
  also from b1 c have "\<dots> \<le> 3 * 200" by (intro mult_mono) simp_all
  finally have b2: "\<bar>e1 * c\<bar> \<le> 600" by simp
  then have "\<bar>e1 * c\<bar> < 1024" by simp
  from dbl_err [OF this] have 2: "\<bar>e2 - e1 * c\<bar> \<le> 1 / 2 ^ 44"
    by (simp add: e2_def js_mul_def)
  from 2 b2 small have b3: "\<bar>e2\<bar> \<le> 601" by linarith
  with a have "\<bar>a + e2\<bar> < 1024" by linarith
  from dbl_err [OF this] have 3: "\<bar>e3 - (a + e2)\<bar> \<le> 1 / 2 ^ 44"
    by (simp add: e3_def js_add_def)
  have "\<bar>e1 * c - s * 4 * c\<bar> = \<bar>e1 - s * 4\<bar> * \<bar>c\<bar>"
    by (simp add: abs_mult [symmetric] left_diff_distrib)
  also from 1 c have "\<dots> \<le> (1 / 2 ^ 44) * 200" by (intro mult_mono) simp_all
  finally have 4: "\<bar>e1 * c - s * 4 * c\<bar> \<le> 200 / 2 ^ 44" by simp
  have "e3 - (a + s * 4 * c) = (e3 - (a + e2)) + (e2 - e1 * c) + (e1 * c - s * 4 * c)"
    by simp
  then have "\<bar>e3 - (a + s * 4 * c)\<bar> \<le>
      \<bar>e3 - (a + e2)\<bar> + \<bar>e2 - e1 * c\<bar> + \<bar>e1 * c - s * 4 * c\<bar>"
    by linarith
  with 2 3 4 have "\<bar>e3 - (a + s * 4 * c)\<bar> \<le> 202 / 2 ^ 44" by linarith
  also have "(202::real) / 2 ^ 44 \<le> 1 / 2 ^ 35" by simp
  finally show ?thesis by (simp add: e3_def e2_def e1_def)
qed

lemma channel_first:
  assumes "0 \<le> t" "t < 1 / 4" and a: "\<bar>a\<bar> \<le> 256" and c: "\<bar>c\<bar> \<le> 200"
  shows "\<bar>real_of_int (round (js_add a (js_mul (js_mul t 4) c))) - (a + t / (1 / 4) * c)\<bar>
         \<le> 1 / 2 + 1 / 2 ^ 30"
proof -
  from assms(1,2) have "\<bar>t\<bar> \<le> 1 / 2" by simp
  from lerp_rounded [OF this a c]
  have 1: "\<bar>js_add a (js_mul (js_mul t 4) c) - (a + t * 4 * c)\<bar> \<le> 1 / 2 ^ 35" .
  have 2: "(1::real) / 2 ^ 35 \<le> 1 / 2 ^ 30" by simp
  have 3: "t / (1 / 4) * c = t * 4 * c" by simp
  show ?thesis
    unfolding 3 by (rule abs_triangle3 [OF 1 round_err 2])
qed

lemma channel_next:
  assumes "q \<le> t" "t \<le> q + 1 / 4" "0 \<le> q" "q \<le> 1"
    and a: "\<bar>a\<bar> \<le> 256" and c: "\<bar>c\<bar> \<le> 200"
  shows "\<bar>real_of_int (round (js_add a (js_mul (js_mul (js_sub t q) 4) c))) -
           (a + (t - q) / (1 / 4) * c)\<bar> \<le> 1 / 2 + 1 / 2 ^ 30"
proof -
  define s where "s = js_sub t q"
  from assms(1-4) have "\<bar>t - q\<bar> < 1024" by simp
  from dbl_err [OF this] have 1: "\<bar>s - (t - q)\<bar> \<le> 1 / 2 ^ 44"
    by (simp add: s_def js_sub_def)
  have small: "(1::real) / 2 ^ 44 \<le> 1 / 8" by simp
  from 1 assms(1,2) small have "\<bar>s\<bar> \<le> 1 / 2" by linarith
  from lerp_rounded [OF this a c]
  have 2: "\<bar>js_add a (js_mul (js_mul s 4) c) - (a + s * 4 * c)\<bar> \<le> 1 / 2 ^ 35" .
  have "s * 4 * c - (t - q) * 4 * c = (s - (t - q)) * (4 * c)"
    by (simp add: algebra_simps)
  then have "\<bar>s * 4 * c - (t - q) * 4 * c\<bar> = \<bar>s - (t - q)\<bar> * \<bar>4 * c\<bar>"
    by (simp only: abs_mult)
  also from 1 c have "\<dots> \<le> (1 / 2 ^ 44) * (4 * 200)"
    by (intro mult_mono) (simp_all add: abs_mult)
  finally have 3: "\<bar>(a + s * 4 * c) - (a + (t - q) * 4 * c)\<bar> \<le> 800 / 2 ^ 44" by simp
  have 4: "(800::real) / 2 ^ 44 + 1 / 2 ^ 35 \<le> 1 / 2 ^ 30" by simp
  have 5: "(t - q) / (1 / 4) * c = (t - q) * 4 * c" by simp
  show ?thesis
    unfolding 5 s_def [symmetric] by (rule abs_triangle4 [OF 2 3 round_err 4])
qed


section \<open>Distance categories, colours and opacity\<close>

text \<open>
  C5. The category of a distance is decided by the first threshold it is below, every
  threshold being the lower, inclusive end of the next category: \<open>veryClose\<close> iff
  \<open>d < 0.05\<close>, \<open>close\<close> iff \<open>0.05 \<le> d < 0.1\<close>, \<open>slightlyClose\<close> iff \<open>0.1 \<le> d < 0.3\<close>,
  \<open>slightlyFar\<close> iff \<open>0.3 \<le> d < 0.5\<close>, \<open>far\<close> iff \<open>0.5 \<le> d < 0.7\<close> and \<open>veryFar\<close> iff
  \<open>0.7 \<le> d\<close>; the distance \<open>0.05\<close> itself is \<open>close\<close>. The thresholds are the binary64
  values of the literals, and the statement holds for every finite distance.
\<close>

theorem getDistanceCategory_boundaries:
  "(getDistanceCategory d = VeryClose \<longleftrightarrow> d < dbl 0.05) \<and>
   (getDistanceCategory d = Close \<longleftrightarrow> dbl 0.05 \<le> d \<and> d < dbl 0.1) \<and>
   (getDistanceCategory d = SlightlyClose \<longleftrightarrow> dbl 0.1 \<le> d \<and> d < dbl 0.3) \<and>
   (getDistanceCategory d = SlightlyFar \<longleftrightarrow> dbl 0.3 \<le> d \<and> d < 0.5) \<and>
   (getDistanceCategory d = Far \<longleftrightarrow> 0.5 \<le> d \<and> d < dbl 0.7) \<and>
   (getDistanceCategory d = VeryFar \<longleftrightarrow> dbl 0.7 \<le> d) \<and>
   getDistanceCategory d \<noteq> Same \<and>
   getDistanceCategory (dbl 0.05) = Close"
  unfolding getDistanceCategory_def dbl_005 dbl_01 dbl_03 dbl_07 by simp

text \<open>
  The four branches of \<^const>\<open>getDistanceColor\<close>, the differences of the anchor
  channels evaluated; then the interpolation bound of every channel in every segment,
  the distance of the clamped binary64 product from the clamped exact one, and the
  colours at the ends of the segments.
\<close>

lemma js_sub_anchors:
  "js_sub 34 59 = - 25"
  "js_sub 197 130 = 67"
  "js_sub 94 246 = - 152"
  "js_sub 74 34 = 40"
  "js_sub 222 197 = 25"
  "js_sub 128 94 = 34"
  "js_sub 250 74 = 176"
  "js_sub 204 222 = - 18"
  "js_sub 21 128 = - 107"
  "js_sub 239 250 = - 11"
  "js_sub 68 204 = - 136"
  "js_sub 68 21 = 47"
  by (simp_all add: dbl_eval)

lemma color_segment1:
  assumes t: "min (max (js_mul d 2) 0) 1 = t" and c: "t < 0.25"
  shows "getDistanceColor d opacity =
      \<lparr>red = round (js_add 59 (js_mul (js_mul t 4) (- 25))),
       green = round (js_add 130 (js_mul (js_mul t 4) 67)),
       blue = round (js_add 246 (js_mul (js_mul t 4) (- 152))),
       alpha = opacity\<rparr>"
  using c unfolding getDistanceColor_def Let_def t js_sub_anchors by simp

lemma color_segment2:
  assumes t: "min (max (js_mul d 2) 0) 1 = t" and c: "0.25 \<le> t" "t < 0.5"
  shows "getDistanceColor d opacity =
      \<lparr>red = round (js_add 34 (js_mul (js_mul (js_sub t 0.25) 4) 40)),
       green = round (js_add 197 (js_mul (js_mul (js_sub t 0.25) 4) 25)),
       blue = round (js_add 94 (js_mul (js_mul (js_sub t 0.25) 4) 34)),
       alpha = opacity\<rparr>"
  using c unfolding getDistanceColor_def Let_def t js_sub_anchors by simp

lemma color_segment3:
  assumes t: "min (max (js_mul d 2) 0) 1 = t" and c: "0.5 \<le> t" "t < 0.75"
  shows "getDistanceColor d opacity =
      \<lparr>red = round (js_add 74 (js_mul (js_mul (js_sub t 0.5) 4) 176)),
       green = round (js_add 222 (js_mul (js_mul (js_sub t 0.5) 4) (- 18))),
       blue = round (js_add 128 (js_mul (js_mul (js_sub t 0.5) 4) (- 107))),
       alpha = opacity\<rparr>"
  using c unfolding getDistanceColor_def Let_def t js_sub_anchors by simp

lemma color_segment4:
  assumes t: "min (max (js_mul d 2) 0) 1 = t" and c: "0.75 \<le> t"
  shows "getDistanceColor d opacity =
      \<lparr>red = round (js_add 250 (js_mul (js_mul (js_sub t 0.75) 4) (- 11))),
       green = round (js_add 204 (js_mul (js_mul (js_sub t 0.75) 4) (- 136))),
       blue = round (js_add 21 (js_mul (js_mul (js_sub t 0.75) 4) 47)),
       alpha = opacity\<rparr>"
  using c unfolding getDistanceColor_def Let_def t js_sub_anchors by simp

lemma color_interpolation:
  "(t = min (max (js_mul d 2) 0) 1 \<longrightarrow>
      0 \<le> t \<and> t \<le> 1 \<and> alpha (getDistanceColor d opacity) = opacity \<and>
      (t < 0.25 \<longrightarrow>
        \<bar>real_of_int (red (getDistanceColor d opacity)) - (59 + t / 0.25 * (34 - 59))\<bar>
          \<le> 1 / 2 + 1 / 2 ^ 30 \<and>
        \<bar>real_of_int (green (getDistanceColor d opacity)) - (130 + t / 0.25 * (197 - 130))\<bar>
          \<le> 1 / 2 + 1 / 2 ^ 30 \<and>
        \<bar>real_of_int (blue (getDistanceColor d opacity)) - (246 + t / 0.25 * (94 - 246))\<bar>
          \<le> 1 / 2 + 1 / 2 ^ 30) \<and>
      (0.25 \<le> t \<and> t < 0.5 \<longrightarrow>
        \<bar>real_of_int (red (getDistanceColor d opacity)) - (34 + (t - 0.25) / 0.25 * (74 - 34))\<bar>
          \<le> 1 / 2 + 1 / 2 ^ 30 \<and>
        \<bar>real_of_int (green (getDistanceColor d opacity)) - (197 + (t - 0.25) / 0.25 * (222 - 197))\<bar>
          \<le> 1 / 2 + 1 / 2 ^ 30 \<and>
        \<bar>real_of_int (blue (getDistanceColor d opacity)) - (94 + (t - 0.25) / 0.25 * (128 - 94))\<bar>
          \<le> 1 / 2 + 1 / 2 ^ 30) \<and>
      (0.5 \<le> t \<and> t < 0.75 \<longrightarrow>
        \<bar>real_of_int (red (getDistanceColor d opacity)) - (74 + (t - 0.5) / 0.25 * (250 - 74))\<bar>
          \<le> 1 / 2 + 1 / 2 ^ 30 \<and>
        \<bar>real_of_int (green (getDistanceColor d opacity)) - (222 + (t - 0.5) / 0.25 * (204 - 222))\<bar>
          \<le> 1 / 2 + 1 / 2 ^ 30 \<and>
        \<bar>real_of_int (blue (getDistanceColor d opacity)) - (128 + (t - 0.5) / 0.25 * (21 - 128))\<bar>
          \<le> 1 / 2 + 1 / 2 ^ 30) \<and>
      (0.75 \<le> t \<longrightarrow>
        \<bar>real_of_int (red (getDistanceColor d opacity)) - (250 + (t - 0.75) / 0.25 * (239 - 250))\<bar>
          \<le> 1 / 2 + 1 / 2 ^ 30 \<and>
        \<bar>real_of_int (green (getDistanceColor d opacity)) - (204 + (t - 0.75) / 0.25 * (68 - 204))\<bar>
          \<le> 1 / 2 + 1 / 2 ^ 30 \<and>
        \<bar>real_of_int (blue (getDistanceColor d opacity)) - (21 + (t - 0.75) / 0.25 * (68 - 21))\<bar>
          \<le> 1 / 2 + 1 / 2 ^ 30))"
proof (intro conjI impI)
  assume t: "t = min (max (js_mul d 2) 0) 1"
  show "0 \<le> t"
    unfolding t by simp
next
  assume t: "t = min (max (js_mul d 2) 0) 1"
  show "t \<le> 1"
    unfolding t by simp
next
  assume t: "t = min (max (js_mul d 2) 0) 1"
  show "alpha (getDistanceColor d opacity) = opacity"
    by (simp add: getDistanceColor_def Let_def)
next
  assume t: "t = min (max (js_mul d 2) 0) 1"
  assume c1: "t < 0.25"
  show "\<bar>real_of_int (red (getDistanceColor d opacity)) - (59 + t / 0.25 * (34 - 59))\<bar>
          \<le> 1 / 2 + 1 / 2 ^ 30"
    proof -
      from t have r: "0 \<le> t" by simp
      have e: "red (getDistanceColor d opacity) = round (js_add 59 (js_mul (js_mul t 4) (- 25)))"
        using c1 by (simp add: color_segment1 [OF t [symmetric]])
      from channel_first [of t 59 "- 25"] r c1 show ?thesis
        unfolding e by simp
    qed
next
  assume t: "t = min (max (js_mul d 2) 0) 1"
  assume c1: "t < 0.25"
  show "\<bar>real_of_int (green (getDistanceColor d opacity)) - (130 + t / 0.25 * (197 - 130))\<bar>
          \<le> 1 / 2 + 1 / 2 ^ 30"
    proof -
      from t have r: "0 \<le> t" by simp
      have e: "green (getDistanceColor d opacity) = round (js_add 130 (js_mul (js_mul t 4) 67))"
        using c1 by (simp add: color_segment1 [OF t [symmetric]])
      from channel_first [of t 130 "67"] r c1 show ?thesis
        unfolding e by simp
    qed
next
  assume t: "t = min (max (js_mul d 2) 0) 1"
  assume c1: "t < 0.25"
  show "\<bar>real_of_int (blue (getDistanceColor d opacity)) - (246 + t / 0.25 * (94 - 246))\<bar>
          \<le> 1 / 2 + 1 / 2 ^ 30"
    proof -
      from t have r: "0 \<le> t" by simp
      have e: "blue (getDistanceColor d opacity) = round (js_add 246 (js_mul (js_mul t 4) (- 152)))"
        using c1 by (simp add: color_segment1 [OF t [symmetric]])
      from channel_first [of t 246 "- 152"] r c1 show ?thesis
        unfolding e by simp
    qed
next
  assume t: "t = min (max (js_mul d 2) 0) 1"
  assume c1: "0.25 \<le> t \<and> t < 0.5"
  show "\<bar>real_of_int (red (getDistanceColor d opacity)) - (34 + (t - 0.25) / 0.25 * (74 - 34))\<bar>
          \<le> 1 / 2 + 1 / 2 ^ 30"
    proof -
      from t have r: "t \<le> 1" by simp
      have e: "red (getDistanceColor d opacity) =
          round (js_add 34 (js_mul (js_mul (js_sub t 0.25) 4) 40))"
        using c1 by (simp add: color_segment2 [OF t [symmetric]])
      from channel_next [of "0.25" t 34 "40"] r c1 show ?thesis
        unfolding e by simp
    qed
next
  assume t: "t = min (max (js_mul d 2) 0) 1"
  assume c1: "0.25 \<le> t \<and> t < 0.5"
  show "\<bar>real_of_int (green (getDistanceColor d opacity)) - (197 + (t - 0.25) / 0.25 * (222 - 197))\<bar>
          \<le> 1 / 2 + 1 / 2 ^ 30"
    proof -
      from t have r: "t \<le> 1" by simp
      have e: "green (getDistanceColor d opacity) =
          round (js_add 197 (js_mul (js_mul (js_sub t 0.25) 4) 25))"
        using c1 by (simp add: color_segment2 [OF t [symmetric]])
      from channel_next [of "0.25" t 197 "25"] r c1 show ?thesis
        unfolding e by simp
    qed
next
  assume t: "t = min (max (js_mul d 2) 0) 1"
  assume c1: "0.25 \<le> t \<and> t < 0.5"
  show "\<bar>real_of_int (blue (getDistanceColor d opacity)) - (94 + (t - 0.25) / 0.25 * (128 - 94))\<bar>
          \<le> 1 / 2 + 1 / 2 ^ 30"
    proof -
      from t have r: "t \<le> 1" by simp
      have e: "blue (getDistanceColor d opacity) =
          round (js_add 94 (js_mul (js_mul (js_sub t 0.25) 4) 34))"
        using c1 by (simp add: color_segment2 [OF t [symmetric]])
      from channel_next [of "0.25" t 94 "34"] r c1 show ?thesis
        unfolding e by simp
    qed
next
  assume t: "t = min (max (js_mul d 2) 0) 1"
  assume c1: "0.5 \<le> t \<and> t < 0.75"
  show "\<bar>real_of_int (red (getDistanceColor d opacity)) - (74 + (t - 0.5) / 0.25 * (250 - 74))\<bar>
          \<le> 1 / 2 + 1 / 2 ^ 30"
    proof -
      from t have r: "t \<le> 1" by simp
      have e: "red (getDistanceColor d opacity) =
          round (js_add 74 (js_mul (js_mul (js_sub t 0.5) 4) 176))"
        using c1 by (simp add: color_segment3 [OF t [symmetric]])
      from channel_next [of "0.5" t 74 "176"] r c1 show ?thesis
        unfolding e by simp
    qed
next
  assume t: "t = min (max (js_mul d 2) 0) 1"
  assume c1: "0.5 \<le> t \<and> t < 0.75"
  show "\<bar>real_of_int (green (getDistanceColor d opacity)) - (222 + (t - 0.5) / 0.25 * (204 - 222))\<bar>
          \<le> 1 / 2 + 1 / 2 ^ 30"
    proof -
      from t have r: "t \<le> 1" by simp
      have e: "green (getDistanceColor d opacity) =
          round (js_add 222 (js_mul (js_mul (js_sub t 0.5) 4) (- 18)))"
        using c1 by (simp add: color_segment3 [OF t [symmetric]])
      from channel_next [of "0.5" t 222 "- 18"] r c1 show ?thesis
        unfolding e by simp
    qed
next
  assume t: "t = min (max (js_mul d 2) 0) 1"
  assume c1: "0.5 \<le> t \<and> t < 0.75"
  show "\<bar>real_of_int (blue (getDistanceColor d opacity)) - (128 + (t - 0.5) / 0.25 * (21 - 128))\<bar>
          \<le> 1 / 2 + 1 / 2 ^ 30"
    proof -
      from t have r: "t \<le> 1" by simp
      have e: "blue (getDistanceColor d opacity) =
          round (js_add 128 (js_mul (js_mul (js_sub t 0.5) 4) (- 107)))"
        using c1 by (simp add: color_segment3 [OF t [symmetric]])
      from channel_next [of "0.5" t 128 "- 107"] r c1 show ?thesis
        unfolding e by simp
    qed
next
  assume t: "t = min (max (js_mul d 2) 0) 1"
  assume c1: "0.75 \<le> t"
  show "\<bar>real_of_int (red (getDistanceColor d opacity)) - (250 + (t - 0.75) / 0.25 * (239 - 250))\<bar>
          \<le> 1 / 2 + 1 / 2 ^ 30"
    proof -
      from t have r: "t \<le> 1" by simp
      have e: "red (getDistanceColor d opacity) =
          round (js_add 250 (js_mul (js_mul (js_sub t 0.75) 4) (- 11)))"
        using c1 by (simp add: color_segment4 [OF t [symmetric]])
      from channel_next [of "0.75" t 250 "- 11"] r c1 show ?thesis
        unfolding e by simp
    qed
next
  assume t: "t = min (max (js_mul d 2) 0) 1"
  assume c1: "0.75 \<le> t"
  show "\<bar>real_of_int (green (getDistanceColor d opacity)) - (204 + (t - 0.75) / 0.25 * (68 - 204))\<bar>
          \<le> 1 / 2 + 1 / 2 ^ 30"
    proof -
      from t have r: "t \<le> 1" by simp
      have e: "green (getDistanceColor d opacity) =
          round (js_add 204 (js_mul (js_mul (js_sub t 0.75) 4) (- 136)))"
        using c1 by (simp add: color_segment4 [OF t [symmetric]])
      from channel_next [of "0.75" t 204 "- 136"] r c1 show ?thesis
        unfolding e by simp
    qed
next
  assume t: "t = min (max (js_mul d 2) 0) 1"
  assume c1: "0.75 \<le> t"
  show "\<bar>real_of_int (blue (getDistanceColor d opacity)) - (21 + (t - 0.75) / 0.25 * (68 - 21))\<bar>
          \<le> 1 / 2 + 1 / 2 ^ 30"
    proof -
      from t have r: "t \<le> 1" by simp
      have e: "blue (getDistanceColor d opacity) =
          round (js_add 21 (js_mul (js_mul (js_sub t 0.75) 4) 47))"
        using c1 by (simp add: color_segment4 [OF t [symmetric]])
      from channel_next [of "0.75" t 21 "47"] r c1 show ?thesis
        unfolding e by simp
    qed
qed

lemma clamp_err:
  "\<bar>d\<bar> < 512 \<Longrightarrow>
   \<bar>min (max (js_mul d 2) 0) 1 - min (max (d * 2) 0) 1\<bar> \<le> 1 / 2 ^ 44"
proof -
  assume d: "\<bar>d\<bar> < 512"
  then have "\<bar>d * 2\<bar> < 1024" by simp
  then have "\<bar>dbl (d * 2) - d * 2\<bar> \<le> 1 / 2 ^ 44" by (rule dbl_err)
  then have e: "\<bar>js_mul d 2 - d * 2\<bar> \<le> 1 / 2 ^ 44" by (simp add: js_mul_def)
  have "\<And>x y e :: real. \<bar>x - y\<bar> \<le> e \<Longrightarrow> \<bar>min (max x 0) 1 - min (max y 0) 1\<bar> \<le> e"
    by (simp add: min_def max_def abs_if split: if_splits)
  from this [OF e] show ?thesis .
qed

lemma color_anchors:
  "(min (max (js_mul d 2) 0) 1 = 0 \<longrightarrow>
      getDistanceColor d opacity = \<lparr>red = 59, green = 130, blue = 246, alpha = opacity\<rparr>) \<and>
   (min (max (js_mul d 2) 0) 1 = 0.25 \<longrightarrow>
      getDistanceColor d opacity = \<lparr>red = 34, green = 197, blue = 94, alpha = opacity\<rparr>) \<and>
   (min (max (js_mul d 2) 0) 1 = 0.5 \<longrightarrow>
      getDistanceColor d opacity = \<lparr>red = 74, green = 222, blue = 128, alpha = opacity\<rparr>) \<and>
   (min (max (js_mul d 2) 0) 1 = 0.75 \<longrightarrow>
      getDistanceColor d opacity = \<lparr>red = 250, green = 204, blue = 21, alpha = opacity\<rparr>) \<and>
   (min (max (js_mul d 2) 0) 1 = 1 \<longrightarrow>
      getDistanceColor d opacity = \<lparr>red = 239, green = 68, blue = 68, alpha = opacity\<rparr>) \<and>
   (d \<le> 0 \<longrightarrow>
      getDistanceColor d opacity = \<lparr>red = 59, green = 130, blue = 246, alpha = opacity\<rparr>) \<and>
   (0.5 \<le> d \<longrightarrow>
      getDistanceColor d opacity = \<lparr>red = 239, green = 68, blue = 68, alpha = opacity\<rparr>) \<and>
   getDistanceColor 0 opacity = \<lparr>red = 59, green = 130, blue = 246, alpha = opacity\<rparr> \<and>
   getDistanceColor 1 opacity = \<lparr>red = 239, green = 68, blue = 68, alpha = opacity\<rparr>"
proof (intro conjI impI)
  assume t: "min (max (js_mul d 2) 0) 1 = 0"
  show "getDistanceColor d opacity = \<lparr>red = 59, green = 130, blue = 246, alpha = opacity\<rparr>"
    unfolding getDistanceColor_def Let_def t by (simp add: dbl_eval)
next
  assume t: "min (max (js_mul d 2) 0) 1 = 0.25"
  show "getDistanceColor d opacity = \<lparr>red = 34, green = 197, blue = 94, alpha = opacity\<rparr>"
    unfolding getDistanceColor_def Let_def t by (simp add: dbl_eval)
next
  assume t: "min (max (js_mul d 2) 0) 1 = 0.5"
  show "getDistanceColor d opacity = \<lparr>red = 74, green = 222, blue = 128, alpha = opacity\<rparr>"
    unfolding getDistanceColor_def Let_def t by (simp add: dbl_eval)
next
  assume t: "min (max (js_mul d 2) 0) 1 = 0.75"
  show "getDistanceColor d opacity = \<lparr>red = 250, green = 204, blue = 21, alpha = opacity\<rparr>"
    unfolding getDistanceColor_def Let_def t by (simp add: dbl_eval)
next
  assume t: "min (max (js_mul d 2) 0) 1 = 1"
  show "getDistanceColor d opacity = \<lparr>red = 239, green = 68, blue = 68, alpha = opacity\<rparr>"
    unfolding getDistanceColor_def Let_def t by (simp add: dbl_eval)
next
  assume "d \<le> 0"
  then have t: "min (max (js_mul d 2) 0) 1 = 0" by (rule clamp_low)
  show "getDistanceColor d opacity = \<lparr>red = 59, green = 130, blue = 246, alpha = opacity\<rparr>"
    unfolding getDistanceColor_def Let_def t by (simp add: dbl_eval)
next
  assume "0.5 \<le> d"
  then have t: "min (max (js_mul d 2) 0) 1 = 1" by (rule clamp_high)
  show "getDistanceColor d opacity = \<lparr>red = 239, green = 68, blue = 68, alpha = opacity\<rparr>"
    unfolding getDistanceColor_def Let_def t by (simp add: dbl_eval)
next
  show "getDistanceColor 0 opacity = \<lparr>red = 59, green = 130, blue = 246, alpha = opacity\<rparr>"
    by (simp add: getDistanceColor_def dbl_eval)
next
  show "getDistanceColor 1 opacity = \<lparr>red = 239, green = 68, blue = 68, alpha = opacity\<rparr>"
    by (simp add: getDistanceColor_def dbl_eval)
qed

text \<open>
  C6. The colour is interpolated over four segments of \<open>t = clamp (d * 2) 0 1\<close>, and at
  the five ends of the segments it is the anchor colour itself: \<open>(59, 130, 246)\<close> at
  \<open>t = 0\<close>, \<open>(34, 197, 94)\<close> at \<open>t = 0.25\<close>, \<open>(74, 222, 128)\<close> at \<open>t = 0.5\<close>,
  \<open>(250, 204, 21)\<close> at \<open>t = 0.75\<close> and \<open>(239, 68, 68)\<close> at \<open>t = 1\<close>. By the clamp, the
  first anchor is the colour of every distance \<open>d \<le> 0\<close> and the last one that of every
  distance \<open>d \<ge> 0.5\<close>. So the colour of distance \<open>0\<close> is \<open>(59, 130, 246)\<close> and that of
  distance \<open>1\<close> is \<open>(239, 68, 68)\<close>, whatever the opacity.

  Between the ends the colour is piecewise linear: \<open>t\<close> lies in \<open>[0, 1]\<close>, the opacity
  is passed through unchanged, and in the segment that starts at \<open>q\<close>, one of \<open>0\<close>,
  \<open>0.25\<close>, \<open>0.5\<close> and \<open>0.75\<close>, with the anchor \<open>a\<close> at its start and the anchor \<open>b\<close> at
  its end, every channel is the integer nearest to \<open>a + (t - q) / 0.25 * (b - a)\<close>: it
  differs from this exact linear interpolant by at most \<open>1/2 + 1 / 2 ^ 30\<close>, the \<open>1/2\<close> of
  \<^verbatim>\<open>Math.round\<close> and the rounding of the binary64 operations. The segments are
  \<open>t < 0.25\<close>, \<open>0.25 \<le> t < 0.5\<close>, \<open>0.5 \<le> t < 0.75\<close> and \<open>0.75 \<le> t\<close>. The \<open>t\<close> of
  the code is the clamp of the binary64 product, which for \<open>\<bar>d\<bar> < 512\<close> is within
  \<open>1 / 2 ^ 44\<close> of the clamp of the exact product \<open>d * 2\<close>.
\<close>

theorem getDistanceColor_anchors:
  "(min (max (js_mul d 2) 0) 1 = 0 \<longrightarrow>
      getDistanceColor d opacity = \<lparr>red = 59, green = 130, blue = 246, alpha = opacity\<rparr>) \<and>
   (min (max (js_mul d 2) 0) 1 = 0.25 \<longrightarrow>
      getDistanceColor d opacity = \<lparr>red = 34, green = 197, blue = 94, alpha = opacity\<rparr>) \<and>
   (min (max (js_mul d 2) 0) 1 = 0.5 \<longrightarrow>
      getDistanceColor d opacity = \<lparr>red = 74, green = 222, blue = 128, alpha = opacity\<rparr>) \<and>
   (min (max (js_mul d 2) 0) 1 = 0.75 \<longrightarrow>
      getDistanceColor d opacity = \<lparr>red = 250, green = 204, blue = 21, alpha = opacity\<rparr>) \<and>
   (min (max (js_mul d 2) 0) 1 = 1 \<longrightarrow>
      getDistanceColor d opacity = \<lparr>red = 239, green = 68, blue = 68, alpha = opacity\<rparr>) \<and>
   (d \<le> 0 \<longrightarrow>
      getDistanceColor d opacity = \<lparr>red = 59, green = 130, blue = 246, alpha = opacity\<rparr>) \<and>
   (0.5 \<le> d \<longrightarrow>
      getDistanceColor d opacity = \<lparr>red = 239, green = 68, blue = 68, alpha = opacity\<rparr>) \<and>
   getDistanceColor 0 opacity = \<lparr>red = 59, green = 130, blue = 246, alpha = opacity\<rparr> \<and>
   getDistanceColor 1 opacity = \<lparr>red = 239, green = 68, blue = 68, alpha = opacity\<rparr> \<and>
   (t = min (max (js_mul d 2) 0) 1 \<longrightarrow>
         0 \<le> t \<and> t \<le> 1 \<and> alpha (getDistanceColor d opacity) = opacity \<and>
         (t < 0.25 \<longrightarrow>
           \<bar>real_of_int (red (getDistanceColor d opacity)) - (59 + t / 0.25 * (34 - 59))\<bar>
             \<le> 1 / 2 + 1 / 2 ^ 30 \<and>
           \<bar>real_of_int (green (getDistanceColor d opacity)) - (130 + t / 0.25 * (197 - 130))\<bar>
             \<le> 1 / 2 + 1 / 2 ^ 30 \<and>
           \<bar>real_of_int (blue (getDistanceColor d opacity)) - (246 + t / 0.25 * (94 - 246))\<bar>
             \<le> 1 / 2 + 1 / 2 ^ 30) \<and>
         (0.25 \<le> t \<and> t < 0.5 \<longrightarrow>
           \<bar>real_of_int (red (getDistanceColor d opacity)) - (34 + (t - 0.25) / 0.25 * (74 - 34))\<bar>
             \<le> 1 / 2 + 1 / 2 ^ 30 \<and>
           \<bar>real_of_int (green (getDistanceColor d opacity)) - (197 + (t - 0.25) / 0.25 * (222 - 197))\<bar>
             \<le> 1 / 2 + 1 / 2 ^ 30 \<and>
           \<bar>real_of_int (blue (getDistanceColor d opacity)) - (94 + (t - 0.25) / 0.25 * (128 - 94))\<bar>
             \<le> 1 / 2 + 1 / 2 ^ 30) \<and>
         (0.5 \<le> t \<and> t < 0.75 \<longrightarrow>
           \<bar>real_of_int (red (getDistanceColor d opacity)) - (74 + (t - 0.5) / 0.25 * (250 - 74))\<bar>
             \<le> 1 / 2 + 1 / 2 ^ 30 \<and>
           \<bar>real_of_int (green (getDistanceColor d opacity)) - (222 + (t - 0.5) / 0.25 * (204 - 222))\<bar>
             \<le> 1 / 2 + 1 / 2 ^ 30 \<and>
           \<bar>real_of_int (blue (getDistanceColor d opacity)) - (128 + (t - 0.5) / 0.25 * (21 - 128))\<bar>
             \<le> 1 / 2 + 1 / 2 ^ 30) \<and>
         (0.75 \<le> t \<longrightarrow>
           \<bar>real_of_int (red (getDistanceColor d opacity)) - (250 + (t - 0.75) / 0.25 * (239 - 250))\<bar>
             \<le> 1 / 2 + 1 / 2 ^ 30 \<and>
           \<bar>real_of_int (green (getDistanceColor d opacity)) - (204 + (t - 0.75) / 0.25 * (68 - 204))\<bar>
             \<le> 1 / 2 + 1 / 2 ^ 30 \<and>
           \<bar>real_of_int (blue (getDistanceColor d opacity)) - (21 + (t - 0.75) / 0.25 * (68 - 21))\<bar>
             \<le> 1 / 2 + 1 / 2 ^ 30)) \<and>
   (\<bar>d\<bar> < 512 \<longrightarrow>
      \<bar>min (max (js_mul d 2) 0) 1 - min (max (d * 2) 0) 1\<bar> \<le> 1 / 2 ^ 44)"
proof -
  have c: "\<bar>d\<bar> < 512 \<longrightarrow>
      \<bar>min (max (js_mul d 2) 0) 1 - min (max (d * 2) 0) 1\<bar> \<le> 1 / 2 ^ 44"
    by (rule impI) (rule clamp_err)
  from color_anchors [of d opacity] color_interpolation [of t d opacity] c
  show ?thesis
    by (elim conjE) (intro conjI; assumption)
qed

text \<open>
  The anchors are met at the distances \<open>0\<close>, \<open>0.125\<close>, \<open>0.25\<close>, \<open>0.375\<close> and \<open>0.5\<close>;
  the distances \<open>- 1\<close> and \<open>2\<close> are clamped. Inside the first segment, the distance
  \<open>0.0625\<close> has \<open>t = 0.125\<close> and the colour \<open>(47, 164, 170)\<close>, half way between the
  first two anchors: its red channel \<open>47\<close> is the rounding of the interpolant \<open>46.5\<close>.
\<close>

theorem getDistanceColor_anchors_witness:
  "min (max (js_mul 0 2) 0) 1 = 0 \<and>
   getDistanceColor 0 (dbl 0.8) = \<lparr>red = 59, green = 130, blue = 246, alpha = dbl 0.8\<rparr> \<and>
   min (max (js_mul 0.125 2) 0) 1 = 0.25 \<and>
   getDistanceColor 0.125 (dbl 0.8) = \<lparr>red = 34, green = 197, blue = 94, alpha = dbl 0.8\<rparr> \<and>
   min (max (js_mul 0.25 2) 0) 1 = 0.5 \<and>
   getDistanceColor 0.25 (dbl 0.8) = \<lparr>red = 74, green = 222, blue = 128, alpha = dbl 0.8\<rparr> \<and>
   min (max (js_mul 0.375 2) 0) 1 = 0.75 \<and>
   getDistanceColor 0.375 (dbl 0.8) = \<lparr>red = 250, green = 204, blue = 21, alpha = dbl 0.8\<rparr> \<and>
   min (max (js_mul 0.5 2) 0) 1 = 1 \<and>
   getDistanceColor 0.5 (dbl 0.8) = \<lparr>red = 239, green = 68, blue = 68, alpha = dbl 0.8\<rparr> \<and>
   (- 1 :: real) \<le> 0 \<and>
   getDistanceColor (- 1) (dbl 0.8) = \<lparr>red = 59, green = 130, blue = 246, alpha = dbl 0.8\<rparr> \<and>
   (0.5 :: real) \<le> 2 \<and>
   getDistanceColor 2 (dbl 0.8) = \<lparr>red = 239, green = 68, blue = 68, alpha = dbl 0.8\<rparr> \<and>
   0.125 = min (max (js_mul 0.0625 2) 0) 1 \<and> (0.125 :: real) < 0.25 \<and>
   getDistanceColor 0.0625 (dbl 0.8) = \<lparr>red = 47, green = 164, blue = 170, alpha = dbl 0.8\<rparr> \<and>
   \<bar>real_of_int (red (getDistanceColor 0.0625 (dbl 0.8))) - (59 + 0.125 / 0.25 * (34 - 59))\<bar>
     \<le> 1 / 2 + 1 / 2 ^ 30 \<and>
   \<bar>0.0625 :: real\<bar> < 512 \<and>
   \<bar>min (max (js_mul 0.0625 2) 0) 1 - min (max (0.0625 * 2) 0) 1\<bar> \<le> 1 / 2 ^ 44"
proof -
  have t0: "min (max (js_mul 0 2) 0) 1 = 0"
    by (simp add: dbl_eval)
  have t1: "min (max (js_mul 0.125 2) 0) 1 = 0.25"
    by (simp add: dbl_eval)
  have t2: "min (max (js_mul 0.25 2) 0) 1 = 0.5"
    by (simp add: dbl_eval)
  have t3: "min (max (js_mul 0.375 2) 0) 1 = 0.75"
    by (simp add: dbl_eval)
  have t4: "min (max (js_mul 0.5 2) 0) 1 = 1"
    by (simp add: dbl_eval)
  note c0 = getDistanceColor_anchors [of 0 "dbl 0.8", THEN conjunct1, THEN mp, OF t0]
  note c1 = getDistanceColor_anchors [of "0.125" "dbl 0.8",
      THEN conjunct2, THEN conjunct1, THEN mp, OF t1]
  note c2 = getDistanceColor_anchors [of "0.25" "dbl 0.8",
      THEN conjunct2, THEN conjunct2, THEN conjunct1, THEN mp, OF t2]
  note c3 = getDistanceColor_anchors [of "0.375" "dbl 0.8",
      THEN conjunct2, THEN conjunct2, THEN conjunct2, THEN conjunct1, THEN mp, OF t3]
  note c4 = getDistanceColor_anchors [of "0.5" "dbl 0.8",
      THEN conjunct2, THEN conjunct2, THEN conjunct2, THEN conjunct2, THEN conjunct1,
      THEN mp, OF t4]
  have l: "(- 1 :: real) \<le> 0" by simp
  have h: "(0.5 :: real) \<le> 2" by simp
  note c5 = getDistanceColor_anchors [of "- 1" "dbl 0.8",
      THEN conjunct2, THEN conjunct2, THEN conjunct2, THEN conjunct2, THEN conjunct2,
      THEN conjunct1, THEN mp, OF l]
  note c6 = getDistanceColor_anchors [of 2 "dbl 0.8",
      THEN conjunct2, THEN conjunct2, THEN conjunct2, THEN conjunct2, THEN conjunct2,
      THEN conjunct2, THEN conjunct1, THEN mp, OF h]
  have t7: "0.125 = min (max (js_mul 0.0625 2) 0) 1"
    by (simp add: dbl_eval)
  have l7: "(0.125 :: real) < 0.25" by simp
  have c7: "getDistanceColor 0.0625 (dbl 0.8) =
      \<lparr>red = 47, green = 164, blue = 170, alpha = dbl 0.8\<rparr>"
    by (simp add: getDistanceColor_def dbl_eval round_def)
  note c8 = getDistanceColor_anchors [of "0.0625" "dbl 0.8" "0.125",
      THEN conjunct2, THEN conjunct2, THEN conjunct2, THEN conjunct2, THEN conjunct2,
      THEN conjunct2, THEN conjunct2, THEN conjunct2, THEN conjunct2, THEN conjunct1, THEN mp, OF t7,
      THEN conjunct2, THEN conjunct2, THEN conjunct2, THEN conjunct1, THEN mp, OF l7,
      THEN conjunct1]
  have l9: "\<bar>0.0625 :: real\<bar> < 512" by simp
  note c9 = getDistanceColor_anchors [of "0.0625" "dbl 0.8" "0.125",
      THEN conjunct2, THEN conjunct2, THEN conjunct2, THEN conjunct2, THEN conjunct2,
      THEN conjunct2, THEN conjunct2, THEN conjunct2, THEN conjunct2, THEN conjunct2,
      THEN mp, OF l9]
  show ?thesis
    by (intro conjI) (fact t0 c0 t1 c1 t2 c2 t3 c3 t4 c4 l c5 h c6 t7 l7 c7 c8 l9 c9)+
qed

text \<open>
  C7, as stated, at the distance \<open>0.5\<close>: the opacity there is not the floor \<open>0.2\<close>.
\<close>

theorem getDistanceOpacity_half_counterexample:
  "getDistanceOpacity 0.5 \<noteq> dbl 0.2"
  by (simp add: getDistanceOpacity_def dbl_eval)

text \<open>
  C7, amended. The opacity of a distance \<open>d\<close> is \<open>max 0.2 (0.8 - d * 1.2)\<close> in binary64
  arithmetic, never below \<open>0.2\<close>; it is \<open>0.8\<close> at distance \<open>0\<close> and \<open>0.2\<close> at distance \<open>1\<close>.
  At distance \<open>0.5\<close> the difference \<open>0.8 - 0.6\<close> is \<open>0.20000000000000007\<close>, which is
  \<open>2 ^ - 54\<close> above the floor; the floor is reached at the next binary64 value after
  \<open>0.5\<close>.
\<close>

theorem getDistanceOpacity_values:
  "getDistanceOpacity d = max (dbl 0.2) (js_sub (dbl 0.8) (js_mul d (dbl 1.2))) \<and>
   dbl 0.2 \<le> getDistanceOpacity d \<and>
   getDistanceOpacity 0 = dbl 0.8 \<and>
   getDistanceOpacity 1 = dbl 0.2 \<and>
   getDistanceOpacity 0.5 = dbl 0.2 + 1 / 2 ^ 54 \<and>
   getDistanceOpacity (0.5 + 1 / 2 ^ 53) = dbl 0.2"
proof -
  have a: "getDistanceOpacity d = max (dbl 0.2) (js_sub (dbl 0.8) (js_mul d (dbl 1.2)))"
    by (simp only: getDistanceOpacity_def)
  have b: "dbl 0.2 \<le> getDistanceOpacity d"
    unfolding a by (rule max.cobounded1)
  have c: "getDistanceOpacity 0 = dbl 0.8"
    by (simp add: getDistanceOpacity_def dbl_eval)
  have d: "getDistanceOpacity 1 = dbl 0.2"
    by (simp add: getDistanceOpacity_def dbl_eval)
  have e: "getDistanceOpacity 0.5 = dbl 0.2 + 1 / 2 ^ 54"
    by (simp add: getDistanceOpacity_def dbl_eval)
  have f: "getDistanceOpacity (0.5 + 1 / 2 ^ 53) = dbl 0.2"
    by (simp add: getDistanceOpacity_def dbl_eval)
  from a b c d e f show ?thesis by blast
qed


section \<open>Lists of pairs and filtered maps\<close>

lemma pairs_nth:
  "i < j \<Longrightarrow> j < length xs \<Longrightarrow> (xs ! i, xs ! j) \<in> set (pairs xs)"
proof (induction xs arbitrary: i j)
  case Nil
  then show ?case by simp
next
  case (Cons x xs)
  from Cons.prems obtain j' where j: "j = Suc j'" "j' < length xs"
    by (cases j) auto
  show ?case
  proof (cases i)
    case 0
    with j show ?thesis by simp
  next
    case (Suc i')
    with Cons.prems j have "(xs ! i', xs ! j') \<in> set (pairs xs)"
      by (intro Cons.IH) auto
    with Suc j show ?thesis by simp
  qed
qed

lemma pairs_index:
  "(a, b) \<in> set (pairs xs) \<Longrightarrow> \<exists>i j. i < j \<and> j < length xs \<and> xs ! i = a \<and> xs ! j = b"
proof (induction xs)
  case Nil
  then show ?case by simp
next
  case (Cons x xs)
  from Cons.prems consider "a = x" "b \<in> set xs" | "(a, b) \<in> set (pairs xs)"
    by auto
  then show ?case
  proof cases
    case 1
    then obtain k where "k < length xs" "xs ! k = b"
      by (auto simp: in_set_conv_nth)
    with 1 have "0 < Suc k \<and> Suc k < length (x # xs) \<and> (x # xs) ! 0 = a \<and> (x # xs) ! Suc k = b"
      by simp
    then show ?thesis by blast
  next
    case 2
    then obtain i j where "i < j" "j < length xs" "xs ! i = a" "xs ! j = b"
      using Cons.IH by blast
    then have "Suc i < Suc j \<and> Suc j < length (x # xs) \<and> (x # xs) ! Suc i = a \<and> (x # xs) ! Suc j = b"
      by simp
    then show ?thesis by blast
  qed
qed

lemma pairs_subset: "(a, b) \<in> set (pairs xs) \<Longrightarrow> a \<in> set xs \<and> b \<in> set xs"
  using pairs_index [of a b xs] by auto

lemma set_map_filter_iff:
  "y \<in> set (List.map_filter g xs) \<longleftrightarrow> (\<exists>x\<in>set xs. g x = Some y)"
  by (induction xs) (auto split: option.splits)

lemma filter_map_filter_all:
  "(\<And>x y. x \<in> set xs \<Longrightarrow> g x = Some y \<Longrightarrow> P y) \<Longrightarrow>
     filter P (List.map_filter g xs) = List.map_filter g xs"
  by (induction xs) (auto split: option.splits)

lemma filter_map_filter_none:
  "(\<And>x y. x \<in> set xs \<Longrightarrow> g x = Some y \<Longrightarrow> \<not> P y) \<Longrightarrow>
     filter P (List.map_filter g xs) = []"
  by (induction xs) (auto split: option.splits)

lemma map_map_filter:
  "map h (List.map_filter g xs) = map (\<lambda>x. h (the (g x))) (filter (\<lambda>x. g x \<noteq> None) xs)"
  by (simp add: List.map_filter_def)

lemma map_filter_cong_aux:
  "(\<And>x. x \<in> set xs \<Longrightarrow> P x = Q x) \<Longrightarrow>
   (\<And>x. x \<in> set xs \<Longrightarrow> Q x \<Longrightarrow> f x = g x) \<Longrightarrow>
   map f (filter P xs) = map g (filter Q xs)"
  by (induction xs) auto


section \<open>The registry of the source is well-formed\<close>

text \<open>
  \<open>LANGUAGE_LOCATIONS\<close> has distinct codes, distinct names of the primary nodes, no
  empty code, and for every secondary node a primary node of its name whose code is its
  \<open>primaryCode\<close>. Rows 3, 12 and 33 are the nodes \<open>en\<close>, \<open>ja\<close> and \<open>en-us\<close>,
  and the example registry is made of rows 1, 3, 12, 13 and 33.
\<close>

lemma LANGUAGE_LOCATIONS_codes: "distinct (map code LANGUAGE_LOCATIONS)"
  by (simp add: LANGUAGE_LOCATIONS_def)

lemma LANGUAGE_LOCATIONS_rows:
  "LANGUAGE_LOCATIONS ! 3 = node_en" "LANGUAGE_LOCATIONS ! 12 = node_ja"
  "LANGUAGE_LOCATIONS ! 33 = node_en_us" "length LANGUAGE_LOCATIONS = 41"
  by (simp_all add: LANGUAGE_LOCATIONS_def node_en_def node_ja_def node_en_us_def)

lemma exampleNodes_rows:
  "exampleNodes = map (\<lambda>i. LANGUAGE_LOCATIONS ! i) [1, 3, 12, 13, 33]"
  by (simp add: exampleNodes_def LANGUAGE_LOCATIONS_def node_zh_def node_en_def node_ja_def
      node_ko_def node_en_us_def)

lemma wellformed_by_lookup:
  assumes "list_all (\<lambda>n. isPrimary n \<or>
     (case getLanguageByCode ns (the (primaryCode n)) of
        None \<Rightarrow> False
      | Some p \<Rightarrow> isPrimary p \<and> primaryCode n = Some (code p) \<and> name p = name n)) ns"
  shows "\<forall>n\<in>set ns. \<not> isPrimary n \<longrightarrow>
     (\<exists>p\<in>set ns. isPrimary p \<and> primaryCode n = Some (code p) \<and> name p = name n)"
proof (intro ballI impI)
  fix n
  assume "n \<in> set ns" "\<not> isPrimary n"
  with assms obtain p where "getLanguageByCode ns (the (primaryCode n)) = Some p"
    "isPrimary p \<and> primaryCode n = Some (code p) \<and> name p = name n"
    by (auto simp: list_all_iff split: option.splits)
  moreover from this(1) have "p \<in> set ns"
    by (auto simp: getLanguageByCode_def find_Some_iff)
  ultimately show "\<exists>p\<in>set ns. isPrimary p \<and> primaryCode n = Some (code p) \<and> name p = name n"
    by blast
qed

lemma LANGUAGE_LOCATIONS_names: "distinct (map name (filter isPrimary LANGUAGE_LOCATIONS))"
  by (simp add: LANGUAGE_LOCATIONS_def)

lemma LANGUAGE_LOCATIONS_nonempty:
  "list_all (\<lambda>n. code n \<noteq> [] \<and> primaryCode n \<noteq> Some []) LANGUAGE_LOCATIONS"
  by (simp add: LANGUAGE_LOCATIONS_def)

lemma LANGUAGE_LOCATIONS_primaries:
  "\<forall>n\<in>set LANGUAGE_LOCATIONS. \<not> isPrimary n \<longrightarrow>
     (\<exists>p\<in>set LANGUAGE_LOCATIONS. isPrimary p \<and> primaryCode n = Some (code p) \<and> name p = name n)"
  by (rule wellformed_by_lookup) (simp add: LANGUAGE_LOCATIONS_def getLanguageByCode_def)

lemma LANGUAGE_LOCATIONS_primaryCode:
  assumes "i < length LANGUAGE_LOCATIONS"
  shows "primaryCode (LANGUAGE_LOCATIONS ! i) \<noteq> Some []"
  using LANGUAGE_LOCATIONS_nonempty assms by (simp add: list_all_length)

lemma LANGUAGE_LOCATIONS_byName:
  "getLanguageByName LANGUAGE_LOCATIONS ''English'' = Some node_en"
  "getLanguageByName LANGUAGE_LOCATIONS ''Japanese'' = Some node_ja"
  "getLanguageByCode LANGUAGE_LOCATIONS ''en'' = Some node_en"
  by (simp_all add: getLanguageByName_def getLanguageByCode_def LANGUAGE_LOCATIONS_def
      node_en_def node_ja_def)


section \<open>The arcs of the globe\<close>

lemma arcsData_mem:
  "a \<in> set (arcsData ns m f sel) \<longleftrightarrow>
     (\<exists>n1 n2. (n1, n2) \<in> set (pairs ns) \<and>
        (sameLanguageArc n1 n2 = Some a \<or> similarityArc ns m f sel n1 n2 = Some a))"
  by (simp add: arcsData_def set_map_filter_iff case_prod_beta Bex_def) blast

lemma sameLanguageArc_Some:
  "sameLanguageArc n1 n2 = Some a \<Longrightarrow>
     sameLanguagePair n1 n2 \<and> category a = Same \<and> \<not> clickable a \<and>
     node1Code a = code n1 \<and> node2Code a = code n2"
  by (auto simp: sameLanguageArc_def Let_def split: if_splits)

lemma similarityArc_Some:
  assumes "similarityArc ns m f sel n1 n2 = Some a"
  shows "clickable a \<and> node1Code a = code n1 \<and> node2Code a = code n2 \<and>
         lang1 a = name n1 \<and> lang2 a = name n2 \<and>
         category a = getDistanceCategory (distance a) \<and>
         \<not> sameLanguagePair n1 n2 \<and>
         (truthy sel \<longrightarrow> sel = Some (code n1) \<or> sel = Some (code n2)) \<and>
         (\<not> truthy sel \<longrightarrow> filterAt f (category a)) \<and>
         (\<exists>A B row. mainLanguageName ns n1 = Some A \<and> A \<noteq> [] \<and>
            mainLanguageName ns n2 = Some B \<and> B \<noteq> [] \<and>
            m A = Some row \<and> row B = Some (distance a))"
  using assms
  by (auto simp: similarityArc_def Let_def truthy_def split: if_splits option.splits)

lemma same_arcs_of_arcsData:
  "filter (\<lambda>a. category a = Same) (arcsData ns m f sel) =
     List.map_filter (\<lambda>(node1, node2). sameLanguageArc node1 node2) (pairs ns)"
proof -
  have 1: "filter (\<lambda>a. category a = Same)
             (List.map_filter (\<lambda>(node1, node2). sameLanguageArc node1 node2) (pairs ns)) =
           List.map_filter (\<lambda>(node1, node2). sameLanguageArc node1 node2) (pairs ns)"
    by (rule filter_map_filter_all) (auto dest: sameLanguageArc_Some)
  have 2: "filter (\<lambda>a. category a = Same)
             (List.map_filter (\<lambda>(node1, node2). similarityArc ns m f sel node1 node2) (pairs ns)) = []"
  proof (rule filter_map_filter_none)
    fix x y
    assume "(case x of (node1, node2) \<Rightarrow> similarityArc ns m f sel node1 node2) = Some y"
    then obtain n1 n2 where "similarityArc ns m f sel n1 n2 = Some y"
      by (cases x) auto
    from similarityArc_Some [OF this] have "category y = getDistanceCategory (distance y)"
      by blast
    then show "\<not> category y = Same"
      by (simp add: getDistanceCategory_def)
  qed
  show ?thesis
    unfolding arcsData_def filter_append 1 2 by simp
qed

lemma similarity_arcs_of_pair:
  assumes d: "distinct (map code ns)" and ij: "i < j" "j < length ns"
  shows "(a \<in> set (arcsData ns m f sel) \<and> clickable a \<and>
          {node1Code a, node2Code a} = {code (ns ! i), code (ns ! j)}) \<longleftrightarrow>
         similarityArc ns m f sel (ns ! i) (ns ! j) = Some a"
proof
  assume s: "similarityArc ns m f sel (ns ! i) (ns ! j) = Some a"
  from ij have "(ns ! i, ns ! j) \<in> set (pairs ns)"
    by (rule pairs_nth)
  with s have "a \<in> set (arcsData ns m f sel)"
    unfolding arcsData_mem by blast
  with similarityArc_Some [OF s]
  show "a \<in> set (arcsData ns m f sel) \<and> clickable a \<and>
        {node1Code a, node2Code a} = {code (ns ! i), code (ns ! j)}"
    by simp
next
  assume a: "a \<in> set (arcsData ns m f sel) \<and> clickable a \<and>
             {node1Code a, node2Code a} = {code (ns ! i), code (ns ! j)}"
  then obtain n1 n2 where p: "(n1, n2) \<in> set (pairs ns)"
    and "sameLanguageArc n1 n2 = Some a \<or> similarityArc ns m f sel n1 n2 = Some a"
    unfolding arcsData_mem by blast
  with a have s: "similarityArc ns m f sel n1 n2 = Some a"
    using sameLanguageArc_Some by blast
  from pairs_index [OF p] obtain i' j' where
    i'j': "i' < j'" "j' < length ns" "ns ! i' = n1" "ns ! j' = n2"
    by blast
  from similarityArc_Some [OF s] a i'j'
  have codes: "{code (ns ! i'), code (ns ! j')} = {code (ns ! i), code (ns ! j)}"
    by simp
  have eq: "\<And>k l. k < length ns \<Longrightarrow> l < length ns \<Longrightarrow> code (ns ! k) = code (ns ! l) \<Longrightarrow> k = l"
  proof -
    fix k l
    assume "k < length ns" "l < length ns" "code (ns ! k) = code (ns ! l)"
    with nth_eq_iff_index_eq [OF d, of k l] show "k = l"
      by simp
  qed
  from codes have "(code (ns ! i') = code (ns ! i) \<and> code (ns ! j') = code (ns ! j)) \<or>
                   (code (ns ! i') = code (ns ! j) \<and> code (ns ! j') = code (ns ! i))"
    by (auto simp: doubleton_eq_iff)
  then have "i' = i \<and> j' = j"
  proof
    assume "code (ns ! i') = code (ns ! i) \<and> code (ns ! j') = code (ns ! j)"
    with eq [of i' i] eq [of j' j] i'j' ij show ?thesis by simp
  next
    assume "code (ns ! i') = code (ns ! j) \<and> code (ns ! j') = code (ns ! i)"
    with eq [of i' j] eq [of j' i] i'j' ij have "i' = j \<and> j' = i" by simp
    with i'j' ij show ?thesis by simp
  qed
  with s i'j' show "similarityArc ns m f sel (ns ! i) (ns ! j) = Some a"
    by simp
qed

lemma similarityArc_visible:
  assumes "\<not> sameLanguagePair n1 n2"
    and "mainLanguageName ns n1 = Some A" "A \<noteq> []"
    and "mainLanguageName ns n2 = Some B" "B \<noteq> []"
    and "truthy sel \<longrightarrow> sel = Some (code n1) \<or> sel = Some (code n2)"
  shows "(\<exists>a. similarityArc ns m f sel n1 n2 = Some a \<and> distance a = d) \<longleftrightarrow>
         (\<exists>row. m A = Some row \<and> row B = Some d \<and>
            (truthy sel \<or> filterAt f (getDistanceCategory d)))"
  using assms
  by (auto simp: similarityArc_def Let_def truthy_def split: option.splits)

lemma directional_lookup_aux:
  assumes "distinct (map code ns)" "i < j" "j < length ns"
    and "\<not> sameLanguagePair (ns ! i) (ns ! j)"
    and "mainLanguageName ns (ns ! i) = Some A" "A \<noteq> []"
    and "mainLanguageName ns (ns ! j) = Some B" "B \<noteq> []"
    and "truthy sel \<longrightarrow> sel = Some (code (ns ! i)) \<or> sel = Some (code (ns ! j))"
  shows "(\<exists>a\<in>set (arcsData ns m f sel). clickable a \<and>
            {node1Code a, node2Code a} = {code (ns ! i), code (ns ! j)} \<and> distance a = d) \<longleftrightarrow>
         (\<exists>row. m A = Some row \<and> row B = Some d \<and>
            (truthy sel \<or> filterAt f (getDistanceCategory d)))"
proof -
  have "(\<exists>a\<in>set (arcsData ns m f sel). clickable a \<and>
            {node1Code a, node2Code a} = {code (ns ! i), code (ns ! j)} \<and> distance a = d) \<longleftrightarrow>
        (\<exists>a. similarityArc ns m f sel (ns ! i) (ns ! j) = Some a \<and> distance a = d)"
    using similarity_arcs_of_pair [OF assms(1-3), of _ m f sel] by blast
  also have "\<dots> \<longleftrightarrow> (\<exists>row. m A = Some row \<and> row B = Some d \<and>
            (truthy sel \<or> filterAt f (getDistanceCategory d)))"
    by (rule similarityArc_visible [OF assms(4-9)])
  finally show ?thesis .
qed

lemma same_language_arc_present:
  assumes "i < j" "j < length ns"
    and "primaryCode (ns ! i) \<noteq> Some []"
    and "primaryCode (ns ! i) = Some (code (ns ! j)) \<or>
         primaryCode (ns ! j) = Some (code (ns ! i)) \<or>
         (primaryCode (ns ! i) \<noteq> None \<and> primaryCode (ns ! i) = primaryCode (ns ! j))"
  shows "\<exists>a\<in>set (arcsData ns m f sel).
            category a = Same \<and> \<not> clickable a \<and>
            node1Code a = code (ns ! i) \<and> node2Code a = code (ns ! j)"
proof -
  from assms(3,4) have sp: "sameLanguagePair (ns ! i) (ns ! j)"
    by (auto simp: sameLanguagePair_def truthy_def split: option.splits)
  then obtain a where a: "sameLanguageArc (ns ! i) (ns ! j) = Some a"
    by (simp add: sameLanguageArc_def Let_def)
  from assms(1,2) have "(ns ! i, ns ! j) \<in> set (pairs ns)"
    by (rule pairs_nth)
  with a have "a \<in> set (arcsData ns m f sel)"
    unfolding arcsData_mem by blast
  with sameLanguageArc_Some [OF a] show ?thesis
    by blast
qed

lemma same_arc_not_clickable:
  assumes "a \<in> set (arcsData ns m f sel)" "category a = Same"
  shows "\<not> clickable a"
proof -
  from assms have "a \<in> set (filter (\<lambda>a. category a = Same) (arcsData ns m f sel))"
    by simp
  then obtain x where "(case x of (n1, n2) \<Rightarrow> sameLanguageArc n1 n2) = Some a"
    unfolding same_arcs_of_arcsData set_map_filter_iff by blast
  then obtain n1 n2 where "sameLanguageArc n1 n2 = Some a"
    by (cases x) auto
  from sameLanguageArc_Some [OF this] show "\<not> clickable a" by blast
qed

text \<open>The arcs of the example registry.\<close>

lemmas example_defs =
  exampleNodes_def node_zh_def node_en_def node_ja_def node_ko_def node_en_us_def
  exampleMatrix_def oneWayMatrix_def initialDistanceFilter_def onlyVeryFar_def

lemmas arcs_eval =
  arcsData_def sameLanguageArc_def similarityArc_def sameLanguagePair_def
  mainLanguageName_def truthy_def getDistanceCategory_def

lemma exampleNodes_arcs_ja_names:
  "map (\<lambda>a. (node1Code a, node2Code a, lang1 a, lang2 a, clickable a))
     (arcsData exampleNodes exampleMatrix initialDistanceFilter (Some ''ja'')) =
   [(''en'', ''en-us'', ''English'', ''English'', False),
    (''en'', ''ja'', ''English'', ''Japanese'', True),
    (''ja'', ''en-us'', ''Japanese'', ''English'', True)]"
  by (simp add: example_defs arcs_eval dbl_eval)

lemma exampleNodes_arcs_veryFar:
  "map (\<lambda>a. (node1Code a, node2Code a, category a, clickable a))
     (arcsData exampleNodes exampleMatrix onlyVeryFar None) =
   [(''en'', ''en-us'', Same, False), (''en'', ''ja'', VeryFar, True),
    (''ja'', ''en-us'', VeryFar, True)]"
  by (simp add: example_defs arcs_eval dbl_eval)

lemma exampleNodes_arcs_far:
  "map (\<lambda>a. (node1Code a, node2Code a, category a, clickable a))
     (arcsData exampleNodes exampleMatrix initialDistanceFilter None) =
   [(''en'', ''en-us'', Same, False)]"
  by (simp add: example_defs arcs_eval dbl_eval)

text \<open>A similarity arc of the registry of the source: from \<open>ja\<close> to \<open>en-us\<close>.\<close>

lemma LANGUAGE_LOCATIONS_arc_ja_en_us:
  "\<exists>a. similarityArc LANGUAGE_LOCATIONS exampleMatrix initialDistanceFilter (Some ''ja'')
        (LANGUAGE_LOCATIONS ! 12) (LANGUAGE_LOCATIONS ! 33) = Some a \<and>
      node1Code a = ''ja'' \<and> node2Code a = ''en-us'' \<and>
      lang1 a = ''Japanese'' \<and> lang2 a = ''English'' \<and> clickable a"
proof -
  note f = LANGUAGE_LOCATIONS_byName(3) [unfolded getLanguageByCode_def]
  have n: "mainLanguageName LANGUAGE_LOCATIONS node_ja = Some ''Japanese''"
    "mainLanguageName LANGUAGE_LOCATIONS node_en_us = Some ''English''"
    by (simp_all add: mainLanguageName_def node_ja_def node_en_us_def f)
       (simp add: node_en_def)
  show ?thesis
    unfolding LANGUAGE_LOCATIONS_rows
    by (simp add: similarityArc_def n truthy_def sameLanguagePair_def getDistanceCategory_def
        exampleMatrix_def dbl_eval)
       (simp add: node_ja_def node_en_us_def)
qed

text \<open>
  C1, as stated, on the registry of the source: the matrix has the entry
  \<^verbatim>\<open>matrix["Japanese"]["English"]\<close> and no row \<^verbatim>\<open>"English"\<close>; the nodes \<open>en\<close> (row 3)
  and \<open>ja\<close> (row 12) resolve to the names \<open>English\<close> and \<open>Japanese\<close>; the category of
  \<open>0.82\<close> is enabled and no node is selected; yet no similarity arc joins \<open>en\<close> and \<open>ja\<close>.
\<close>

theorem directional_lookup_counterexample:
  "mainLanguageName LANGUAGE_LOCATIONS (LANGUAGE_LOCATIONS ! 3) = Some ''English'' \<and>
   mainLanguageName LANGUAGE_LOCATIONS (LANGUAGE_LOCATIONS ! 12) = Some ''Japanese'' \<and>
   code (LANGUAGE_LOCATIONS ! 3) = ''en'' \<and> code (LANGUAGE_LOCATIONS ! 12) = ''ja'' \<and>
   oneWayMatrix ''English'' = None \<and>
   map_option (\<lambda>row. row ''English'') (oneWayMatrix ''Japanese'') = Some (Some (dbl 0.82)) \<and>
   filterAt onlyVeryFar (getDistanceCategory (dbl 0.82)) \<and>
   \<not> (\<exists>a\<in>set (arcsData LANGUAGE_LOCATIONS oneWayMatrix onlyVeryFar None).
         clickable a \<and> {node1Code a, node2Code a} = {''en'', ''ja''})"
proof -
  have n: "mainLanguageName LANGUAGE_LOCATIONS (LANGUAGE_LOCATIONS ! 3) = Some ''English''"
    "mainLanguageName LANGUAGE_LOCATIONS (LANGUAGE_LOCATIONS ! 12) = Some ''Japanese''"
    "code (LANGUAGE_LOCATIONS ! 3) = ''en''" "code (LANGUAGE_LOCATIONS ! 12) = ''ja''"
    "\<not> sameLanguagePair (LANGUAGE_LOCATIONS ! 3) (LANGUAGE_LOCATIONS ! 12)"
    by (simp_all add: LANGUAGE_LOCATIONS_rows mainLanguageName_def sameLanguagePair_def
        truthy_def node_en_def node_ja_def)
  have m: "oneWayMatrix ''English'' = None"
    "map_option (\<lambda>row. row ''English'') (oneWayMatrix ''Japanese'') = Some (Some (dbl 0.82))"
    by (simp_all add: oneWayMatrix_def)
  have v: "filterAt onlyVeryFar (getDistanceCategory (dbl 0.82))"
    by (simp add: onlyVeryFar_def getDistanceCategory_def dbl_eval)
  have "\<not> (\<exists>a\<in>set (arcsData LANGUAGE_LOCATIONS oneWayMatrix onlyVeryFar None).
         clickable a \<and> {node1Code a, node2Code a} = {''en'', ''ja''})"
  proof
    assume "\<exists>a\<in>set (arcsData LANGUAGE_LOCATIONS oneWayMatrix onlyVeryFar None).
         clickable a \<and> {node1Code a, node2Code a} = {''en'', ''ja''}"
    then obtain a where a: "a \<in> set (arcsData LANGUAGE_LOCATIONS oneWayMatrix onlyVeryFar None)"
      "clickable a" "{node1Code a, node2Code a} = {''en'', ''ja''}"
      by blast
    have "similarityArc LANGUAGE_LOCATIONS oneWayMatrix onlyVeryFar None
            (LANGUAGE_LOCATIONS ! 3) (LANGUAGE_LOCATIONS ! 12) = None"
      by (simp add: LANGUAGE_LOCATIONS_rows similarityArc_def sameLanguagePair_def
          mainLanguageName_def truthy_def node_en_def node_ja_def oneWayMatrix_def)
    moreover have "similarityArc LANGUAGE_LOCATIONS oneWayMatrix onlyVeryFar None
            (LANGUAGE_LOCATIONS ! 3) (LANGUAGE_LOCATIONS ! 12) = Some a"
      using similarity_arcs_of_pair [OF LANGUAGE_LOCATIONS_codes, of 3 12 a
          oneWayMatrix onlyVeryFar None] a n(3,4)
      by (simp add: LANGUAGE_LOCATIONS_rows(4))
    ultimately show False by simp
  qed
  with n m v show ?thesis by blast
qed

text \<open>
  C1, amended. The lookup has one direction. For two nodes \<open>i < j\<close> of a registry with
  distinct codes that are not nodes of one language and resolve to the names \<open>A\<close> (the
  earlier node) and \<open>B\<close> (the later node), and that the selection does not hide, a
  similarity arc of distance \<open>d\<close> joins them exactly when \<^verbatim>\<open>matrix[A][B]\<close> is \<open>d\<close> and
  either a node is selected or the category of \<open>d\<close> is enabled. The entry
  \<^verbatim>\<open>matrix[B][A]\<close> is never read.
\<close>

theorem directional_lookup:
  assumes "distinct (map code ns)" "i < j" "j < length ns"
    and "\<not> sameLanguagePair (ns ! i) (ns ! j)"
    and "mainLanguageName ns (ns ! i) = Some A" "A \<noteq> []"
    and "mainLanguageName ns (ns ! j) = Some B" "B \<noteq> []"
    and "truthy sel \<longrightarrow> sel = Some (code (ns ! i)) \<or> sel = Some (code (ns ! j))"
  shows "(\<exists>a\<in>set (arcsData ns m f sel). clickable a \<and>
            {node1Code a, node2Code a} = {code (ns ! i), code (ns ! j)} \<and> distance a = d) \<longleftrightarrow>
         (\<exists>row. m A = Some row \<and> row B = Some d \<and>
            (truthy sel \<or> filterAt f (getDistanceCategory d)))"
  using assms by (rule directional_lookup_aux)

text \<open>
  On the registry of the source, with the same one-way matrix, the arc from \<open>ja\<close>
  (row 12) to \<open>en-us\<close> (row 33) is produced: there the earlier node is the Japanese one.
\<close>

theorem directional_lookup_witness:
  "distinct (map code LANGUAGE_LOCATIONS) \<and> (12::nat) < 33 \<and> 33 < length LANGUAGE_LOCATIONS \<and>
   \<not> sameLanguagePair (LANGUAGE_LOCATIONS ! 12) (LANGUAGE_LOCATIONS ! 33) \<and>
   mainLanguageName LANGUAGE_LOCATIONS (LANGUAGE_LOCATIONS ! 12) = Some ''Japanese'' \<and>
   mainLanguageName LANGUAGE_LOCATIONS (LANGUAGE_LOCATIONS ! 33) = Some ''English'' \<and>
   oneWayMatrix ''English'' = None \<and>
   (\<exists>a\<in>set (arcsData LANGUAGE_LOCATIONS oneWayMatrix onlyVeryFar None). clickable a \<and>
      {node1Code a, node2Code a} = {''ja'', ''en-us''} \<and> distance a = dbl 0.82)"
proof -
  have n: "mainLanguageName LANGUAGE_LOCATIONS (LANGUAGE_LOCATIONS ! 33) = Some ''English''"
    unfolding LANGUAGE_LOCATIONS_rows
    by (simp add: mainLanguageName_def node_en_us_def LANGUAGE_LOCATIONS_def)
  have g: "(12::nat) < 33" "33 < length LANGUAGE_LOCATIONS"
    "\<not> sameLanguagePair (LANGUAGE_LOCATIONS ! 12) (LANGUAGE_LOCATIONS ! 33)"
    "mainLanguageName LANGUAGE_LOCATIONS (LANGUAGE_LOCATIONS ! 12) = Some ''Japanese''"
    "''Japanese'' \<noteq> []" "''English'' \<noteq> []"
    "truthy None \<longrightarrow> None = Some (code (LANGUAGE_LOCATIONS ! 12)) \<or>
       None = Some (code (LANGUAGE_LOCATIONS ! 33))"
    by (simp_all add: LANGUAGE_LOCATIONS_rows mainLanguageName_def
        sameLanguagePair_def truthy_def node_ja_def node_en_us_def)
  note h = LANGUAGE_LOCATIONS_codes g(1-5) n g(6,7)
  have c: "code (LANGUAGE_LOCATIONS ! 12) = ''ja''" "code (LANGUAGE_LOCATIONS ! 33) = ''en-us''"
    by (simp_all add: LANGUAGE_LOCATIONS_rows node_ja_def node_en_us_def)
  have r: "\<exists>row. oneWayMatrix ''Japanese'' = Some row \<and> row ''English'' = Some (dbl 0.82) \<and>
            (truthy None \<or> filterAt onlyVeryFar (getDistanceCategory (dbl 0.82)))"
    by (simp add: oneWayMatrix_def onlyVeryFar_def getDistanceCategory_def dbl_eval)
  have e: "oneWayMatrix ''English'' = None"
    by (simp add: oneWayMatrix_def)
  note t = directional_lookup [OF h, of oneWayMatrix onlyVeryFar "dbl 0.82", unfolded c]
  from t r
  have x: "\<exists>a\<in>set (arcsData LANGUAGE_LOCATIONS oneWayMatrix onlyVeryFar None). clickable a \<and>
      {node1Code a, node2Code a} = {''ja'', ''en-us''} \<and> distance a = dbl 0.82"
    by (rule iffD2)
  from h(1,2,3,4,5,7) e x show ?thesis by (intro conjI)
qed

text \<open>
  C2. When a node \<open>X\<close> is selected (a non-empty code: the empty string counts as no
  selection), every similarity arc has \<open>X\<close> as one of its two node codes, whatever the
  filter; when no node is selected, the category of every similarity arc is enabled in
  the filter. The similarity arcs are the clickable ones.
\<close>

theorem selection_scoping:
  "(sel = Some X \<and> X \<noteq> [] \<longrightarrow>
      (\<forall>a\<in>set (arcsData ns m f sel). clickable a \<longrightarrow> node1Code a = X \<or> node2Code a = X)) \<and>
   (sel = None \<longrightarrow>
      (\<forall>a\<in>set (arcsData ns m f sel). clickable a \<longrightarrow> filterAt f (category a)))"
proof (intro conjI impI ballI)
  fix a
  assume sel: "sel = Some X \<and> X \<noteq> []"
    and a: "a \<in> set (arcsData ns m f sel)" and c: "clickable a"
  from a obtain n1 n2 where
    "sameLanguageArc n1 n2 = Some a \<or> similarityArc ns m f sel n1 n2 = Some a"
    unfolding arcsData_mem by blast
  with c have s: "similarityArc ns m f sel n1 n2 = Some a"
    using sameLanguageArc_Some by blast
  from sel have "truthy sel" by (simp add: truthy_def)
  with similarityArc_Some [OF s] sel show "node1Code a = X \<or> node2Code a = X"
    by auto
next
  fix a
  assume sel: "sel = None"
    and a: "a \<in> set (arcsData ns m f sel)" and c: "clickable a"
  from a obtain n1 n2 where
    "sameLanguageArc n1 n2 = Some a \<or> similarityArc ns m f sel n1 n2 = Some a"
    unfolding arcsData_mem by blast
  with c have s: "similarityArc ns m f sel n1 n2 = Some a"
    using sameLanguageArc_Some by blast
  from sel have "\<not> truthy sel" by (simp add: truthy_def)
  with similarityArc_Some [OF s] show "filterAt f (category a)"
    by blast
qed

theorem selection_scoping_witness:
  "arcsData exampleNodes exampleMatrix initialDistanceFilter (Some ''ja'') ! 1 \<in>
     set (arcsData exampleNodes exampleMatrix initialDistanceFilter (Some ''ja'')) \<and>
   clickable (arcsData exampleNodes exampleMatrix initialDistanceFilter (Some ''ja'') ! 1) \<and>
   (node1Code (arcsData exampleNodes exampleMatrix initialDistanceFilter (Some ''ja'') ! 1) = ''ja'' \<or>
    node2Code (arcsData exampleNodes exampleMatrix initialDistanceFilter (Some ''ja'') ! 1) = ''ja'') \<and>
   arcsData exampleNodes exampleMatrix onlyVeryFar None ! 1 \<in>
     set (arcsData exampleNodes exampleMatrix onlyVeryFar None) \<and>
   clickable (arcsData exampleNodes exampleMatrix onlyVeryFar None ! 1) \<and>
   filterAt onlyVeryFar (category (arcsData exampleNodes exampleMatrix onlyVeryFar None ! 1))"
proof -
  let ?s = "arcsData exampleNodes exampleMatrix initialDistanceFilter (Some ''ja'')"
  let ?n = "arcsData exampleNodes exampleMatrix onlyVeryFar None"
  have ls: "length ?s = 3"
    using arg_cong [OF exampleNodes_arcs_ja_names, of length] by simp
  have "map (\<lambda>a. (node1Code a, node2Code a, lang1 a, lang2 a, clickable a)) ?s ! 1 =
      (''en'', ''ja'', ''English'', ''Japanese'', True)"
    by (simp only: exampleNodes_arcs_ja_names) simp
  with ls have cs: "clickable (?s ! 1)" by simp
  from ls have ms: "?s ! 1 \<in> set ?s" by simp
  have ln: "length ?n = 3"
    using arg_cong [OF exampleNodes_arcs_veryFar, of length] by simp
  have "map (\<lambda>a. (node1Code a, node2Code a, category a, clickable a)) ?n ! 1 =
      (''en'', ''ja'', VeryFar, True)"
    by (simp only: exampleNodes_arcs_veryFar) simp
  with ln have cn: "clickable (?n ! 1)" by simp
  from ln have mn: "?n ! 1 \<in> set ?n" by simp
  have hs: "Some ''ja'' = Some ''ja'' \<and> ''ja'' \<noteq> []" by simp
  note 1 = selection_scoping [of "Some ''ja''" "''ja''" exampleNodes exampleMatrix
      initialDistanceFilter, THEN conjunct1, THEN mp, OF hs, THEN bspec, OF ms, THEN mp, OF cs]
  note 2 = selection_scoping [of None "''ja''" exampleNodes exampleMatrix
      onlyVeryFar, THEN conjunct2, THEN mp, OF refl, THEN bspec, OF mn, THEN mp, OF cn]
  from ms cs 1 mn cn 2 show ?thesis by (intro conjI)
qed

text \<open>
  C3. For two nodes \<open>i < j\<close> of one language (one is the primary of the other, or both
  have the same \<open>primaryCode\<close>), whatever the matrix, the filter and the selection,
  there is an arc of category \<open>same\<close> between them that is not clickable: in the
  registry of the source, and in every registry where that \<open>primaryCode\<close> is not the
  empty string. No arc of category \<open>same\<close> is clickable, and the arcs of category
  \<open>same\<close> do not depend on the matrix, the filter or the selection.
\<close>

theorem same_language_arcs:
  "(i < j \<and> j < length LANGUAGE_LOCATIONS \<and>
    (primaryCode (LANGUAGE_LOCATIONS ! i) = Some (code (LANGUAGE_LOCATIONS ! j)) \<or>
     primaryCode (LANGUAGE_LOCATIONS ! j) = Some (code (LANGUAGE_LOCATIONS ! i)) \<or>
     (primaryCode (LANGUAGE_LOCATIONS ! i) \<noteq> None \<and>
      primaryCode (LANGUAGE_LOCATIONS ! i) = primaryCode (LANGUAGE_LOCATIONS ! j))) \<longrightarrow>
    (\<exists>a\<in>set (arcsData LANGUAGE_LOCATIONS m f sel).
       category a = Same \<and> \<not> clickable a \<and>
       node1Code a = code (LANGUAGE_LOCATIONS ! i) \<and>
       node2Code a = code (LANGUAGE_LOCATIONS ! j))) \<and>
   (i < j \<and> j < length ns \<and> primaryCode (ns ! i) \<noteq> Some [] \<and>
    (primaryCode (ns ! i) = Some (code (ns ! j)) \<or>
     primaryCode (ns ! j) = Some (code (ns ! i)) \<or>
     (primaryCode (ns ! i) \<noteq> None \<and> primaryCode (ns ! i) = primaryCode (ns ! j))) \<longrightarrow>
    (\<exists>a\<in>set (arcsData ns m f sel).
       category a = Same \<and> \<not> clickable a \<and>
       node1Code a = code (ns ! i) \<and> node2Code a = code (ns ! j))) \<and>
   (\<forall>a\<in>set (arcsData ns m f sel). category a = Same \<longrightarrow> \<not> clickable a) \<and>
   filter (\<lambda>a. category a = Same) (arcsData ns m f sel) =
     filter (\<lambda>a. category a = Same) (arcsData ns m' f' sel')"
proof (intro conjI impI ballI)
  assume h: "i < j \<and> j < length LANGUAGE_LOCATIONS \<and>
    (primaryCode (LANGUAGE_LOCATIONS ! i) = Some (code (LANGUAGE_LOCATIONS ! j)) \<or>
     primaryCode (LANGUAGE_LOCATIONS ! j) = Some (code (LANGUAGE_LOCATIONS ! i)) \<or>
     (primaryCode (LANGUAGE_LOCATIONS ! i) \<noteq> None \<and>
      primaryCode (LANGUAGE_LOCATIONS ! i) = primaryCode (LANGUAGE_LOCATIONS ! j)))"
  then have "i < length LANGUAGE_LOCATIONS" by simp
  then have "primaryCode (LANGUAGE_LOCATIONS ! i) \<noteq> Some []"
    by (rule LANGUAGE_LOCATIONS_primaryCode)
  with h show "\<exists>a\<in>set (arcsData LANGUAGE_LOCATIONS m f sel).
       category a = Same \<and> \<not> clickable a \<and>
       node1Code a = code (LANGUAGE_LOCATIONS ! i) \<and>
       node2Code a = code (LANGUAGE_LOCATIONS ! j)"
    by (intro same_language_arc_present) simp_all
next
  assume h: "i < j \<and> j < length ns \<and> primaryCode (ns ! i) \<noteq> Some [] \<and>
    (primaryCode (ns ! i) = Some (code (ns ! j)) \<or>
     primaryCode (ns ! j) = Some (code (ns ! i)) \<or>
     (primaryCode (ns ! i) \<noteq> None \<and> primaryCode (ns ! i) = primaryCode (ns ! j)))"
  then show "\<exists>a\<in>set (arcsData ns m f sel).
       category a = Same \<and> \<not> clickable a \<and>
       node1Code a = code (ns ! i) \<and> node2Code a = code (ns ! j)"
    by (intro same_language_arc_present) simp_all
next
  fix a
  assume "a \<in> set (arcsData ns m f sel)" "category a = Same"
  then show "\<not> clickable a" by (rule same_arc_not_clickable)
next
  show "filter (\<lambda>a. category a = Same) (arcsData ns m f sel) =
        filter (\<lambda>a. category a = Same) (arcsData ns m' f' sel')"
    by (simp only: same_arcs_of_arcsData)
qed

theorem same_language_arcs_witness:
  "(3::nat) < 33 \<and> 33 < length LANGUAGE_LOCATIONS \<and>
   primaryCode (LANGUAGE_LOCATIONS ! 33) = Some (code (LANGUAGE_LOCATIONS ! 3)) \<and>
   (\<exists>a\<in>set (arcsData LANGUAGE_LOCATIONS exampleMatrix initialDistanceFilter (Some ''ja'')).
      category a = Same \<and> \<not> clickable a \<and> node1Code a = ''en'' \<and> node2Code a = ''en-us'') \<and>
   filter (\<lambda>a. category a = Same)
     (arcsData LANGUAGE_LOCATIONS exampleMatrix initialDistanceFilter (Some ''ja'')) =
   filter (\<lambda>a. category a = Same) (arcsData LANGUAGE_LOCATIONS oneWayMatrix onlyVeryFar None)"
proof -
  have h: "(3::nat) < 33" "33 < length LANGUAGE_LOCATIONS"
    "primaryCode (LANGUAGE_LOCATIONS ! 33) = Some (code (LANGUAGE_LOCATIONS ! 3))"
    by (simp_all add: LANGUAGE_LOCATIONS_rows node_en_def node_en_us_def)
  have c: "code (LANGUAGE_LOCATIONS ! 3) = ''en''" "code (LANGUAGE_LOCATIONS ! 33) = ''en-us''"
    by (simp_all add: LANGUAGE_LOCATIONS_rows node_en_def node_en_us_def)
  from h have d: "(3::nat) < 33 \<and> 33 < length LANGUAGE_LOCATIONS \<and>
    (primaryCode (LANGUAGE_LOCATIONS ! 3) = Some (code (LANGUAGE_LOCATIONS ! 33)) \<or>
     primaryCode (LANGUAGE_LOCATIONS ! 33) = Some (code (LANGUAGE_LOCATIONS ! 3)) \<or>
     (primaryCode (LANGUAGE_LOCATIONS ! 3) \<noteq> None \<and>
      primaryCode (LANGUAGE_LOCATIONS ! 3) = primaryCode (LANGUAGE_LOCATIONS ! 33)))"
    by simp
  note t = same_language_arcs [of 3 33 exampleMatrix initialDistanceFilter "Some ''ja''"
      LANGUAGE_LOCATIONS oneWayMatrix onlyVeryFar None]
  note 1 = t [THEN conjunct1, THEN mp, OF d, unfolded c]
  note 2 = t [THEN conjunct2, THEN conjunct2, THEN conjunct2]
  from h 1 2 show ?thesis by (intro conjI)
qed


section \<open>The click on an arc\<close>

lemma getLanguageByName_primary:
  assumes d: "distinct (map name (filter isPrimary ns))"
    and p: "p \<in> set ns" "isPrimary p"
  shows "getLanguageByName ns (name p) = Some p"
proof -
  let ?P = "\<lambda>lang. name lang = name p \<and> isPrimary lang"
  from p have "\<exists>x\<in>set ns. ?P x" by blast
  then have "find ?P ns \<noteq> None"
    by (auto simp: find_None_iff)
  then obtain q where q: "find ?P ns = Some q" by blast
  then have "q \<in> set ns" "?P q"
    by (auto simp: find_Some_iff)
  with p have "q \<in> set (filter isPrimary ns)" "p \<in> set (filter isPrimary ns)" "name q = name p"
    by simp_all
  moreover from d have "inj_on name (set (filter isPrimary ns))"
    by (simp add: distinct_map)
  ultimately have "q = p" by (auto dest: inj_onD)
  with q show ?thesis by (simp add: getLanguageByName_def)
qed

lemma getLanguageByName_node:
  assumes d: "distinct (map name (filter isPrimary ns))"
    and w: "\<forall>n\<in>set ns. \<not> isPrimary n \<longrightarrow>
              (\<exists>p\<in>set ns. isPrimary p \<and> primaryCode n = Some (code p) \<and> name p = name n)"
    and n: "n \<in> set ns"
  shows "map_option code (getLanguageByName ns (name n)) =
         Some (if isPrimary n then code n else the (primaryCode n))"
proof (cases "isPrimary n")
  case True
  with getLanguageByName_primary [OF d n] show ?thesis by simp
next
  case False
  with w n obtain p where p: "p \<in> set ns" "isPrimary p" "primaryCode n = Some (code p)"
    "name p = name n"
    by blast
  from getLanguageByName_primary [OF d p(1,2)] p False show ?thesis by simp
qed

lemma arc_click_navigates:
  assumes d: "distinct (map name (filter isPrimary ns))"
    and w: "\<forall>n\<in>set ns. \<not> isPrimary n \<longrightarrow>
       (\<exists>p\<in>set ns. isPrimary p \<and> primaryCode n = Some (code p) \<and> name p = name n)"
    and m: "a \<in> set (arcsData ns m f sel)" and c: "clickable a"
  shows "\<exists>n1 n2. (n1, n2) \<in> set (pairs ns) \<and> node1Code a = code n1 \<and> node2Code a = code n2 \<and>
       handleArcClick ns a st =
         st\<lparr>location := ''/compare/'' @ (if isPrimary n1 then code n1 else the (primaryCode n1)) @
                ''/'' @ (if isPrimary n2 then code n2 else the (primaryCode n2))\<rparr>"
proof -
  from m obtain n1 n2 where p: "(n1, n2) \<in> set (pairs ns)"
    and "sameLanguageArc n1 n2 = Some a \<or> similarityArc ns m f sel n1 n2 = Some a"
    unfolding arcsData_mem by blast
  with c have s: "similarityArc ns m f sel n1 n2 = Some a"
    using sameLanguageArc_Some by blast
  note a = similarityArc_Some [OF s]
  from pairs_subset [OF p] have n: "n1 \<in> set ns" "n2 \<in> set ns" by simp_all
  from getLanguageByName_node [OF d w n(1)] getLanguageByName_node [OF d w n(2)] a
  obtain l1 l2 where l: "getLanguageByName ns (lang1 a) = Some l1"
      "code l1 = (if isPrimary n1 then code n1 else the (primaryCode n1))"
      "getLanguageByName ns (lang2 a) = Some l2"
      "code l2 = (if isPrimary n2 then code n2 else the (primaryCode n2))"
    by auto
  with a have "handleArcClick ns a st =
         st\<lparr>location := ''/compare/'' @ (if isPrimary n1 then code n1 else the (primaryCode n1)) @
                ''/'' @ (if isPrimary n2 then code n2 else the (primaryCode n2))\<rparr>"
    by (simp add: handleArcClick_def navigate_def)
  with p a show ?thesis
    by blast
qed

text \<open>
  C8. A click on an arc changes neither the selected node nor the popup nor the filter.
  A click on a similarity arc of \<open>arcsData\<close> navigates to
  \<^verbatim>\<open>/compare/<code1>/<code2>\<close>, the codes being those of the primary nodes of its two
  end nodes (the code of the node when it is primary, else its \<open>primaryCode\<close>): in the
  registry of the source, and in every registry where the primary nodes have distinct
  names and every secondary node names a primary node of its own display name.
\<close>

theorem arc_click:
  "selectedNodeCode (handleArcClick ns a st) = selectedNodeCode st \<and>
   popupLanguage (handleArcClick ns a st) = popupLanguage st \<and>
   distanceFilter (handleArcClick ns a st) = distanceFilter st \<and>
   (a \<in> set (arcsData LANGUAGE_LOCATIONS m f sel) \<and> clickable a \<longrightarrow>
    (\<exists>n1 n2. (n1, n2) \<in> set (pairs LANGUAGE_LOCATIONS) \<and>
       node1Code a = code n1 \<and> node2Code a = code n2 \<and>
       handleArcClick LANGUAGE_LOCATIONS a st =
         st\<lparr>location := ''/compare/'' @ (if isPrimary n1 then code n1 else the (primaryCode n1)) @
                ''/'' @ (if isPrimary n2 then code n2 else the (primaryCode n2))\<rparr>)) \<and>
   (distinct (map name (filter isPrimary ns)) \<and>
    (\<forall>n\<in>set ns. \<not> isPrimary n \<longrightarrow>
       (\<exists>p\<in>set ns. isPrimary p \<and> primaryCode n = Some (code p) \<and> name p = name n)) \<and>
    a \<in> set (arcsData ns m f sel) \<and> clickable a \<longrightarrow>
    (\<exists>n1 n2. (n1, n2) \<in> set (pairs ns) \<and> node1Code a = code n1 \<and> node2Code a = code n2 \<and>
       handleArcClick ns a st =
         st\<lparr>location := ''/compare/'' @ (if isPrimary n1 then code n1 else the (primaryCode n1)) @
                ''/'' @ (if isPrimary n2 then code n2 else the (primaryCode n2))\<rparr>))"
proof (intro conjI impI)
  show "selectedNodeCode (handleArcClick ns a st) = selectedNodeCode st"
    by (simp add: handleArcClick_def navigate_def split: option.splits)
  show "popupLanguage (handleArcClick ns a st) = popupLanguage st"
    by (simp add: handleArcClick_def navigate_def split: option.splits)
  show "distanceFilter (handleArcClick ns a st) = distanceFilter st"
    by (simp add: handleArcClick_def navigate_def split: option.splits)
next
  assume "a \<in> set (arcsData LANGUAGE_LOCATIONS m f sel) \<and> clickable a"
  then have "a \<in> set (arcsData LANGUAGE_LOCATIONS m f sel)" "clickable a"
    by simp_all
  with LANGUAGE_LOCATIONS_names LANGUAGE_LOCATIONS_primaries
  show "\<exists>n1 n2. (n1, n2) \<in> set (pairs LANGUAGE_LOCATIONS) \<and>
       node1Code a = code n1 \<and> node2Code a = code n2 \<and>
       handleArcClick LANGUAGE_LOCATIONS a st =
         st\<lparr>location := ''/compare/'' @ (if isPrimary n1 then code n1 else the (primaryCode n1)) @
                ''/'' @ (if isPrimary n2 then code n2 else the (primaryCode n2))\<rparr>"
    by (rule arc_click_navigates)
next
  assume h: "distinct (map name (filter isPrimary ns)) \<and>
    (\<forall>n\<in>set ns. \<not> isPrimary n \<longrightarrow>
       (\<exists>p\<in>set ns. isPrimary p \<and> primaryCode n = Some (code p) \<and> name p = name n)) \<and>
    a \<in> set (arcsData ns m f sel) \<and> clickable a"
  then have "distinct (map name (filter isPrimary ns))"
    "\<forall>n\<in>set ns. \<not> isPrimary n \<longrightarrow>
       (\<exists>p\<in>set ns. isPrimary p \<and> primaryCode n = Some (code p) \<and> name p = name n)"
    "a \<in> set (arcsData ns m f sel)" "clickable a"
    by simp_all
  then show "\<exists>n1 n2. (n1, n2) \<in> set (pairs ns) \<and> node1Code a = code n1 \<and> node2Code a = code n2 \<and>
       handleArcClick ns a st =
         st\<lparr>location := ''/compare/'' @ (if isPrimary n1 then code n1 else the (primaryCode n1)) @
                ''/'' @ (if isPrimary n2 then code n2 else the (primaryCode n2))\<rparr>"
    by (rule arc_click_navigates)
qed

theorem arc_click_witness:
  "\<exists>a\<in>set (arcsData LANGUAGE_LOCATIONS exampleMatrix initialDistanceFilter (Some ''ja'')).
     clickable a \<and> node1Code a = ''ja'' \<and> node2Code a = ''en-us'' \<and>
     handleArcClick LANGUAGE_LOCATIONS a (initialState\<lparr>selectedNodeCode := Some ''ja''\<rparr>) =
       initialState\<lparr>selectedNodeCode := Some ''ja'', location := ''/compare/ja/en''\<rparr> \<and>
     selectedNodeCode
       (handleArcClick LANGUAGE_LOCATIONS a (initialState\<lparr>selectedNodeCode := Some ''ja''\<rparr>)) =
       Some ''ja'' \<and>
     (\<exists>n1 n2. (n1, n2) \<in> set (pairs LANGUAGE_LOCATIONS) \<and>
        node1Code a = code n1 \<and> node2Code a = code n2 \<and>
        handleArcClick LANGUAGE_LOCATIONS a (initialState\<lparr>selectedNodeCode := Some ''ja''\<rparr>) =
          initialState\<lparr>selectedNodeCode := Some ''ja'',
            location := ''/compare/'' @ (if isPrimary n1 then code n1 else the (primaryCode n1)) @
                ''/'' @ (if isPrimary n2 then code n2 else the (primaryCode n2))\<rparr>)"
proof -
  define st where "st = initialState\<lparr>selectedNodeCode := Some ''ja''\<rparr>"
  let ?arcs = "arcsData LANGUAGE_LOCATIONS exampleMatrix initialDistanceFilter (Some ''ja'')"
  obtain a where A:
    "similarityArc LANGUAGE_LOCATIONS exampleMatrix initialDistanceFilter (Some ''ja'')
        (LANGUAGE_LOCATIONS ! 12) (LANGUAGE_LOCATIONS ! 33) = Some a \<and>
      node1Code a = ''ja'' \<and> node2Code a = ''en-us'' \<and>
      lang1 a = ''Japanese'' \<and> lang2 a = ''English'' \<and> clickable a"
    using LANGUAGE_LOCATIONS_arc_ja_en_us by (rule exE)
  note a = A [THEN conjunct1]
  note g = A [THEN conjunct2, THEN conjunct1]
    A [THEN conjunct2, THEN conjunct2, THEN conjunct1]
    A [THEN conjunct2, THEN conjunct2, THEN conjunct2, THEN conjunct1]
    A [THEN conjunct2, THEN conjunct2, THEN conjunct2, THEN conjunct2, THEN conjunct1]
    A [THEN conjunct2, THEN conjunct2, THEN conjunct2, THEN conjunct2, THEN conjunct2]
  have "(12::nat) < 33" "33 < length LANGUAGE_LOCATIONS"
    by (simp_all add: LANGUAGE_LOCATIONS_rows)
  note p = similarity_arcs_of_pair [OF LANGUAGE_LOCATIONS_codes this, of a exampleMatrix
      initialDistanceFilter "Some ''ja''", THEN iffD2, OF a]
  note m = p [THEN conjunct1]
  have l: "code node_ja = ''ja''" "code node_en = ''en''"
    by (simp_all add: node_ja_def node_en_def)
  have h: "handleArcClick LANGUAGE_LOCATIONS a st =
      initialState\<lparr>selectedNodeCode := Some ''ja'', location := ''/compare/ja/en''\<rparr>"
    by (simp add: handleArcClick_def g LANGUAGE_LOCATIONS_byName l navigate_def st_def)
  note t = arc_click [of LANGUAGE_LOCATIONS a st exampleMatrix initialDistanceFilter "Some ''ja''"]
  from t have "selectedNodeCode (handleArcClick LANGUAGE_LOCATIONS a st) = selectedNodeCode st"
    by (rule conjunct1)
  then have s: "selectedNodeCode (handleArcClick LANGUAGE_LOCATIONS a st) = Some ''ja''"
    by (simp add: st_def)
  from m g(5) have hy: "a \<in> set ?arcs \<and> clickable a" by (rule conjI)
  note e = t [THEN conjunct2, THEN conjunct2, THEN conjunct2, THEN conjunct1, THEN mp, OF hy]
  have u: "\<And>x. st\<lparr>location := x\<rparr> = initialState\<lparr>selectedNodeCode := Some ''ja'', location := x\<rparr>"
    by (simp add: st_def)
  from g(5,1,2) h s e [unfolded u]
  have b: "clickable a \<and> node1Code a = ''ja'' \<and> node2Code a = ''en-us'' \<and>
     handleArcClick LANGUAGE_LOCATIONS a st =
       initialState\<lparr>selectedNodeCode := Some ''ja'', location := ''/compare/ja/en''\<rparr> \<and>
     selectedNodeCode (handleArcClick LANGUAGE_LOCATIONS a st) = Some ''ja'' \<and>
     (\<exists>n1 n2. (n1, n2) \<in> set (pairs LANGUAGE_LOCATIONS) \<and>
        node1Code a = code n1 \<and> node2Code a = code n2 \<and>
        handleArcClick LANGUAGE_LOCATIONS a st =
          initialState\<lparr>selectedNodeCode := Some ''ja'',
            location := ''/compare/'' @ (if isPrimary n1 then code n1 else the (primaryCode n1)) @
                ''/'' @ (if isPrimary n2 then code n2 else the (primaryCode n2))\<rparr>)"
    by (intro conjI)
  show ?thesis
  proof (rule bexI)
    show "a \<in> set ?arcs" by (fact m)
    from b show "clickable a \<and> node1Code a = ''ja'' \<and> node2Code a = ''en-us'' \<and>
     handleArcClick LANGUAGE_LOCATIONS a (initialState\<lparr>selectedNodeCode := Some ''ja''\<rparr>) =
       initialState\<lparr>selectedNodeCode := Some ''ja'', location := ''/compare/ja/en''\<rparr> \<and>
     selectedNodeCode
       (handleArcClick LANGUAGE_LOCATIONS a (initialState\<lparr>selectedNodeCode := Some ''ja''\<rparr>)) =
       Some ''ja'' \<and>
     (\<exists>n1 n2. (n1, n2) \<in> set (pairs LANGUAGE_LOCATIONS) \<and>
        node1Code a = code n1 \<and> node2Code a = code n2 \<and>
        handleArcClick LANGUAGE_LOCATIONS a (initialState\<lparr>selectedNodeCode := Some ''ja''\<rparr>) =
          initialState\<lparr>selectedNodeCode := Some ''ja'',
            location := ''/compare/'' @ (if isPrimary n1 then code n1 else the (primaryCode n1)) @
                ''/'' @ (if isPrimary n2 then code n2 else the (primaryCode n2))\<rparr>)"
      unfolding st_def .
  qed
qed


section \<open>The similarity ranking\<close>

lemma similarityItem_Some:
  assumes "similarityItem ns c s L m n = Some it"
  shows "itemCode it = code n \<and> itemName it = name n \<and>
         itemSimilarity it = js_sub 1 (itemDistance it)"
  using assms
  by (auto simp: similarityItem_def Let_def split: if_splits option.splits)

lemma similarityItem_eq:
  assumes "m L = Some row" "primaryCode s \<noteq> Some []"
  shows "similarityItem ns c s L m n =
     (if code n \<noteq> c \<and> name n \<noteq> name s \<and> primaryCode n \<noteq> Some c \<and>
         primaryCode s \<noteq> Some (code n) \<and>
         (primaryCode s = None \<or> primaryCode n \<noteq> primaryCode s) \<and>
         (\<exists>N d. mainLanguageName ns n = Some N \<and> N \<noteq> [] \<and> row N = Some d)
      then Some \<lparr>itemCode = code n, itemName = name n, itemNameJa = nameJa n,
                 itemCountry = country n,
                 itemSimilarity = js_sub 1 (the (row (the (mainLanguageName ns n)))),
                 itemDistance = the (row (the (mainLanguageName ns n)))\<rparr>
      else None)"
  using assms
  by (auto simp: similarityItem_def Let_def truthy_def split: option.splits)

text \<open>
  The language name of a node: that of the node itself when it is primary, otherwise
  that of the node whose code is its \<open>primaryCode\<close>. When the codes of the registry are
  distinct, \<^const>\<open>mainLanguageName\<close> finds exactly that node; and whatever it
  returns is the name of such a node. The ranking of the selection \<open>ja\<close> over the whole
  registry of the source, with a matrix that has the one entry from Japanese to
  English, lists the three English nodes, the two secondary ones among them.
\<close>

lemma find_code_distinct:
  assumes d: "distinct (map code ns)" and p: "p \<in> set ns"
  shows "find (\<lambda>l. Some (code l) = Some (code p)) ns = Some p"
proof -
  let ?P = "\<lambda>l. Some (code l) = Some (code p)"
  from p have "\<exists>x\<in>set ns. ?P x" by blast
  then have "find ?P ns \<noteq> None"
    by (auto simp: find_None_iff)
  then obtain q where q: "find ?P ns = Some q" by blast
  then have "q \<in> set ns" "code q = code p"
    by (auto simp: find_Some_iff)
  moreover from d have "inj_on code (set ns)"
    by (simp add: distinct_map)
  ultimately have "q = p" using p by (auto dest: inj_onD)
  with q show ?thesis by simp
qed

lemma mainLanguageName_resolved:
  assumes d: "distinct (map code ns)" and p: "p \<in> set ns"
    and r: "if isPrimary n then p = n else primaryCode n = Some (code p)"
  shows "mainLanguageName ns n = Some (name p)"
proof (cases "isPrimary n")
  case True
  with r show ?thesis by (simp add: mainLanguageName_def)
next
  case False
  with r have c: "primaryCode n = Some (code p)" by simp
  from False show ?thesis
    unfolding mainLanguageName_def c find_code_distinct [OF d p] by simp
qed

lemma mainLanguageName_sound:
  assumes N: "mainLanguageName ns n = Some N" and n: "n \<in> set ns"
  shows "\<exists>p\<in>set ns. (if isPrimary n then p = n else primaryCode n = Some (code p)) \<and>
     N = name p"
proof (cases "isPrimary n")
  case True
  with N have "N = name n" by (simp add: mainLanguageName_def)
  with True n show ?thesis by simp
next
  case False
  with N obtain p where f: "find (\<lambda>l. Some (code l) = primaryCode n) ns = Some p"
    and Np: "N = name p"
    by (auto simp: mainLanguageName_def)
  from f have pin: "p \<in> set ns" and pc: "primaryCode n = Some (code p)"
    by (auto simp: find_Some_iff)
  show ?thesis
  proof (rule bexI)
    show "(if isPrimary n then p = n else primaryCode n = Some (code p)) \<and> N = name p"
      using False pc Np by simp
    show "p \<in> set ns" by (fact pin)
  qed
qed

lemma LANGUAGE_LOCATIONS_ranking_ja:
  "map (\<lambda>it. (itemCode it, itemDistance it))
     (sortedSimilarities LANGUAGE_LOCATIONS ''ja'' oneWayMatrix) =
     [(''en'', dbl 0.82), (''en-us'', dbl 0.82), (''en-au'', dbl 0.82)]"
  by (simp add: sortedSimilarities_def similarityItem_def mainLanguageName_def truthy_def
      LANGUAGE_LOCATIONS_def oneWayMatrix_def)

text \<open>
  C4. When the selected node resolves to a name that has a row in the matrix, the
  ranking is sorted by ascending distance; the similarity of every entry is
  \<open>1 - distance\<close>; and its entries are, with their distances, exactly the nodes that are
  not the selection, do not have its display name, are not linked to it by
  \<open>primaryCode\<close>, and whose name has an entry in the row: all of them, with no cap.
  For the distances \<open>0.02\<close>, \<open>0.1\<close> and \<open>0.4\<close> the order is that one, with the
  similarities \<open>0.98\<close>, \<open>0.9\<close> and \<open>0.6\<close>.

  The names are resolved through the primary node. The name \<open>L\<close> of the selection is
  the name of the selected node when it is primary, and otherwise of a node whose code
  is its \<open>primaryCode\<close>. In a registry of distinct codes, the name of every node \<open>n\<close> is
  that of \<open>p\<close>, where \<open>p\<close> is \<open>n\<close> itself when \<open>n\<close> is primary and otherwise the node
  whose code is the \<open>primaryCode\<close> of \<open>n\<close>; every node that is not excluded and whose
  \<open>p\<close> has a non-empty name with the entry \<open>d\<close> in the row is in the ranking, with
  its own code and display name, the distance \<open>d\<close> and the similarity \<open>1 - d\<close>; and
  no code is listed twice. Conversely, every entry of the ranking comes from such a
  node. So a secondary node of another language is ranked with the distance of its
  primary: with the one entry from Japanese to English, the selection \<open>ja\<close> ranks
  \<open>en\<close> and \<open>en-us\<close> in the example registry and \<open>en\<close>, \<open>en-us\<close> and \<open>en-au\<close> in the
  registry of the source; and the secondary selection \<open>en-us\<close> ranks \<open>ja\<close>, \<open>zh\<close> and
  \<open>ko\<close> by the row of English, without \<open>en\<close>.
\<close>

theorem ranking:
  assumes "find (\<lambda>l. code l = c) ns = Some s"
    and "mainLanguageName ns s = Some L" "L \<noteq> []" "m L = Some row"
    and "primaryCode s \<noteq> Some []"
  shows "sorted (map itemDistance (sortedSimilarities ns c m)) \<and>
     (\<forall>it\<in>set (sortedSimilarities ns c m). itemSimilarity it = js_sub 1 (itemDistance it)) \<and>
     mset (map (\<lambda>it. (itemCode it, itemDistance it)) (sortedSimilarities ns c m)) =
     mset (map (\<lambda>n. (code n, the (row (the (mainLanguageName ns n)))))
            (filter (\<lambda>n. code n \<noteq> c \<and> name n \<noteq> name s \<and> primaryCode n \<noteq> Some c \<and>
                primaryCode s \<noteq> Some (code n) \<and>
                (primaryCode s = None \<or> primaryCode n \<noteq> primaryCode s) \<and>
                (\<exists>N d. mainLanguageName ns n = Some N \<and> N \<noteq> [] \<and> row N = Some d)) ns)) \<and>
     map (\<lambda>it. (itemCode it, itemDistance it, itemSimilarity it))
       (sortedSimilarities exampleNodes ''en'' rankingMatrix) =
       [(''ja'', dbl 0.02, dbl 0.98), (''zh'', dbl 0.1, dbl 0.9), (''ko'', dbl 0.4, dbl 0.6)] \<and>
     (\<exists>sp\<in>set ns. (if isPrimary s then sp = s else primaryCode s = Some (code sp)) \<and>
        L = name sp) \<and>
     (distinct (map code ns) \<longrightarrow>
       (\<forall>n\<in>set ns. \<forall>p\<in>set ns. (if isPrimary n then p = n else primaryCode n = Some (code p)) \<longrightarrow>
          mainLanguageName ns n = Some (name p))) \<and>
     (distinct (map code ns) \<longrightarrow>
       (\<forall>n\<in>set ns. \<forall>p\<in>set ns. \<forall>d.
          code n \<noteq> c \<and> name n \<noteq> name s \<and> primaryCode n \<noteq> Some c \<and>
          primaryCode s \<noteq> Some (code n) \<and>
          (primaryCode s = None \<or> primaryCode n \<noteq> primaryCode s) \<and>
          (if isPrimary n then p = n else primaryCode n = Some (code p)) \<and>
          name p \<noteq> [] \<and> row (name p) = Some d \<longrightarrow>
          (\<exists>it\<in>set (sortedSimilarities ns c m). itemCode it = code n \<and> itemName it = name n \<and>
             itemDistance it = d \<and> itemSimilarity it = js_sub 1 d))) \<and>
     (\<forall>it\<in>set (sortedSimilarities ns c m). \<exists>n\<in>set ns. \<exists>p\<in>set ns.
          itemCode it = code n \<and>
          code n \<noteq> c \<and> name n \<noteq> name s \<and> primaryCode n \<noteq> Some c \<and>
          primaryCode s \<noteq> Some (code n) \<and>
          (primaryCode s = None \<or> primaryCode n \<noteq> primaryCode s) \<and>
          (if isPrimary n then p = n else primaryCode n = Some (code p)) \<and>
          name p \<noteq> [] \<and> row (name p) = Some (itemDistance it)) \<and>
     (distinct (map code ns) \<longrightarrow> distinct (map itemCode (sortedSimilarities ns c m))) \<and>
     map (\<lambda>it. (itemCode it, itemDistance it))
       (sortedSimilarities exampleNodes ''ja'' exampleMatrix) =
       [(''en'', dbl 0.82), (''en-us'', dbl 0.82)] \<and>
     map (\<lambda>it. (itemCode it, itemDistance it))
       (sortedSimilarities exampleNodes ''en-us'' rankingMatrix) =
       [(''ja'', dbl 0.02), (''zh'', dbl 0.1), (''ko'', dbl 0.4)] \<and>
     map (\<lambda>it. (itemCode it, itemDistance it))
       (sortedSimilarities LANGUAGE_LOCATIONS ''ja'' oneWayMatrix) =
       [(''en'', dbl 0.82), (''en-us'', dbl 0.82), (''en-au'', dbl 0.82)]"
proof -
  let ?g = "similarityItem ns c s L m"
  have R: "sortedSimilarities ns c m = sort_key itemDistance (List.map_filter ?g ns)"
    using assms by (simp add: sortedSimilarities_def Let_def truthy_def)
  have 1: "sorted (map itemDistance (sortedSimilarities ns c m))"
    unfolding R by (rule sorted_sort_key)
  have 2: "\<forall>it\<in>set (sortedSimilarities ns c m). itemSimilarity it = js_sub 1 (itemDistance it)"
    unfolding R by (auto simp: set_map_filter_iff dest: similarityItem_Some)
  have "mset (map (\<lambda>it. (itemCode it, itemDistance it)) (sortedSimilarities ns c m)) =
        mset (map (\<lambda>it. (itemCode it, itemDistance it)) (List.map_filter ?g ns))"
    unfolding R by simp
  also have "map (\<lambda>it. (itemCode it, itemDistance it)) (List.map_filter ?g ns) =
        map (\<lambda>n. (code n, the (row (the (mainLanguageName ns n)))))
            (filter (\<lambda>n. code n \<noteq> c \<and> name n \<noteq> name s \<and> primaryCode n \<noteq> Some c \<and>
                primaryCode s \<noteq> Some (code n) \<and>
                (primaryCode s = None \<or> primaryCode n \<noteq> primaryCode s) \<and>
                (\<exists>N d. mainLanguageName ns n = Some N \<and> N \<noteq> [] \<and> row N = Some d)) ns)"
    unfolding map_map_filter
      similarityItem_eq [where m = m and L = L and row = row and s = s, OF assms(4,5)]
    by (rule map_filter_cong_aux) auto
  finally have 3: "mset (map (\<lambda>it. (itemCode it, itemDistance it)) (sortedSimilarities ns c m)) =
     mset (map (\<lambda>n. (code n, the (row (the (mainLanguageName ns n)))))
            (filter (\<lambda>n. code n \<noteq> c \<and> name n \<noteq> name s \<and> primaryCode n \<noteq> Some c \<and>
                primaryCode s \<noteq> Some (code n) \<and>
                (primaryCode s = None \<or> primaryCode n \<noteq> primaryCode s) \<and>
                (\<exists>N d. mainLanguageName ns n = Some N \<and> N \<noteq> [] \<and> row N = Some d)) ns))" .
  have 4: "map (\<lambda>it. (itemCode it, itemDistance it, itemSimilarity it))
       (sortedSimilarities exampleNodes ''en'' rankingMatrix) =
       [(''ja'', dbl 0.02, dbl 0.98), (''zh'', dbl 0.1, dbl 0.9), (''ko'', dbl 0.4, dbl 0.6)]"
    by (simp add: sortedSimilarities_def similarityItem_def mainLanguageName_def truthy_def
        example_defs rankingMatrix_def dbl_eval)
  from assms(1) have s: "s \<in> set ns"
    by (auto simp: find_Some_iff)
  from mainLanguageName_sound [OF assms(2) s]
  have 5: "(\<exists>sp\<in>set ns. (if isPrimary s then sp = s else primaryCode s = Some (code sp)) \<and>
        L = name sp)" .
  have 6: "(distinct (map code ns) \<longrightarrow>
       (\<forall>n\<in>set ns. \<forall>p\<in>set ns. (if isPrimary n then p = n else primaryCode n = Some (code p)) \<longrightarrow>
          mainLanguageName ns n = Some (name p)))"
    by (intro impI ballI) (rule mainLanguageName_resolved)
  have 7: "(distinct (map code ns) \<longrightarrow>
       (\<forall>n\<in>set ns. \<forall>p\<in>set ns. \<forall>d.
          code n \<noteq> c \<and> name n \<noteq> name s \<and> primaryCode n \<noteq> Some c \<and>
          primaryCode s \<noteq> Some (code n) \<and>
          (primaryCode s = None \<or> primaryCode n \<noteq> primaryCode s) \<and>
          (if isPrimary n then p = n else primaryCode n = Some (code p)) \<and>
          name p \<noteq> [] \<and> row (name p) = Some d \<longrightarrow>
          (\<exists>it\<in>set (sortedSimilarities ns c m). itemCode it = code n \<and> itemName it = name n \<and>
             itemDistance it = d \<and> itemSimilarity it = js_sub 1 d)))"
  proof (intro impI ballI allI)
    fix n p d
    assume dc: "distinct (map code ns)" and n: "n \<in> set ns" and p: "p \<in> set ns"
    assume h: "code n \<noteq> c \<and> name n \<noteq> name s \<and> primaryCode n \<noteq> Some c \<and>
          primaryCode s \<noteq> Some (code n) \<and>
          (primaryCode s = None \<or> primaryCode n \<noteq> primaryCode s) \<and>
          (if isPrimary n then p = n else primaryCode n = Some (code p)) \<and>
          name p \<noteq> [] \<and> row (name p) = Some d"
    from h have res: "(if isPrimary n then p = n else primaryCode n = Some (code p))" by simp
    have N: "mainLanguageName ns n = Some (name p)"
      by (rule mainLanguageName_resolved [OF dc p res])
    from h N have "?g n = Some \<lparr>itemCode = code n, itemName = name n, itemNameJa = nameJa n,
        itemCountry = country n, itemSimilarity = js_sub 1 d, itemDistance = d\<rparr>"
      unfolding similarityItem_eq [where m = m and L = L and row = row and s = s, OF assms(4,5)]
      by simp
    with n have "\<lparr>itemCode = code n, itemName = name n, itemNameJa = nameJa n,
        itemCountry = country n, itemSimilarity = js_sub 1 d, itemDistance = d\<rparr>
        \<in> set (sortedSimilarities ns c m)"
      unfolding R by (auto simp: set_map_filter_iff)
    then show "\<exists>it\<in>set (sortedSimilarities ns c m). itemCode it = code n \<and> itemName it = name n \<and>
             itemDistance it = d \<and> itemSimilarity it = js_sub 1 d"
      by (rule rev_bexI) simp
  qed
  have 8: "(\<forall>it\<in>set (sortedSimilarities ns c m). \<exists>n\<in>set ns. \<exists>p\<in>set ns.
          itemCode it = code n \<and>
          code n \<noteq> c \<and> name n \<noteq> name s \<and> primaryCode n \<noteq> Some c \<and>
          primaryCode s \<noteq> Some (code n) \<and>
          (primaryCode s = None \<or> primaryCode n \<noteq> primaryCode s) \<and>
          (if isPrimary n then p = n else primaryCode n = Some (code p)) \<and>
          name p \<noteq> [] \<and> row (name p) = Some (itemDistance it))"
  proof (rule ballI)
    fix it
    assume "it \<in> set (sortedSimilarities ns c m)"
    then obtain n where n: "n \<in> set ns" and g: "?g n = Some it"
      unfolding R by (auto simp: set_map_filter_iff)
    from g have e: "code n \<noteq> c \<and> name n \<noteq> name s \<and> primaryCode n \<noteq> Some c \<and>
          primaryCode s \<noteq> Some (code n) \<and>
          (primaryCode s = None \<or> primaryCode n \<noteq> primaryCode s)"
      and x: "\<exists>N d. mainLanguageName ns n = Some N \<and> N \<noteq> [] \<and> row N = Some d"
      and i: "it = \<lparr>itemCode = code n, itemName = name n, itemNameJa = nameJa n,
                 itemCountry = country n,
                 itemSimilarity = js_sub 1 (the (row (the (mainLanguageName ns n)))),
                 itemDistance = the (row (the (mainLanguageName ns n)))\<rparr>"
      unfolding similarityItem_eq [where m = m and L = L and row = row and s = s, OF assms(4,5)]
      by (simp_all split: if_splits)
    from x obtain N d where N: "mainLanguageName ns n = Some N" "N \<noteq> []" "row N = Some d"
      by (elim exE conjE)
    from mainLanguageName_sound [OF N(1) n] obtain p where p: "p \<in> set ns"
      and res: "(if isPrimary n then p = n else primaryCode n = Some (code p))" and Np: "N = name p"
      by (elim bexE conjE)
    from i N have "itemCode it = code n" "itemDistance it = d" by simp_all
    with e res N(2,3) Np have "itemCode it = code n \<and>
          code n \<noteq> c \<and> name n \<noteq> name s \<and> primaryCode n \<noteq> Some c \<and>
          primaryCode s \<noteq> Some (code n) \<and>
          (primaryCode s = None \<or> primaryCode n \<noteq> primaryCode s) \<and>
          (if isPrimary n then p = n else primaryCode n = Some (code p)) \<and>
          name p \<noteq> [] \<and> row (name p) = Some (itemDistance it)"
      by simp
    with n p show "\<exists>n\<in>set ns. \<exists>p\<in>set ns.
          itemCode it = code n \<and>
          code n \<noteq> c \<and> name n \<noteq> name s \<and> primaryCode n \<noteq> Some c \<and>
          primaryCode s \<noteq> Some (code n) \<and>
          (primaryCode s = None \<or> primaryCode n \<noteq> primaryCode s) \<and>
          (if isPrimary n then p = n else primaryCode n = Some (code p)) \<and>
          name p \<noteq> [] \<and> row (name p) = Some (itemDistance it)"
      by (intro bexI)
  qed
  have 9: "(distinct (map code ns) \<longrightarrow> distinct (map itemCode (sortedSimilarities ns c m)))"
  proof (rule impI)
    assume dc: "distinct (map code ns)"
    have "map itemCode (List.map_filter ?g ns) =
        map code (filter (\<lambda>n. ?g n \<noteq> None) ns)"
      unfolding map_map_filter
      by (rule map_filter_cong_aux) (auto dest: similarityItem_Some)
    moreover from dc have "distinct (map code (filter (\<lambda>n. ?g n \<noteq> None) ns))"
      by (rule distinct_map_filter)
    ultimately have dd: "distinct (map itemCode (List.map_filter ?g ns))" by simp
    have ms: "mset (map itemCode (sortedSimilarities ns c m)) =
        mset (map itemCode (List.map_filter ?g ns))"
      unfolding R by simp
    from mset_eq_imp_distinct_iff [OF ms, THEN iffD2, OF dd]
    show "distinct (map itemCode (sortedSimilarities ns c m))" .
  qed
  have 10: "map (\<lambda>it. (itemCode it, itemDistance it))
       (sortedSimilarities exampleNodes ''ja'' exampleMatrix) =
       [(''en'', dbl 0.82), (''en-us'', dbl 0.82)]"
    by (simp add: sortedSimilarities_def similarityItem_def mainLanguageName_def truthy_def
        example_defs)
  have 11: "map (\<lambda>it. (itemCode it, itemDistance it))
       (sortedSimilarities exampleNodes ''en-us'' rankingMatrix) =
       [(''ja'', dbl 0.02), (''zh'', dbl 0.1), (''ko'', dbl 0.4)]"
    by (simp add: sortedSimilarities_def similarityItem_def mainLanguageName_def truthy_def
        example_defs rankingMatrix_def dbl_eval)
  note 12 = LANGUAGE_LOCATIONS_ranking_ja
  from 1 2 3 4 5 6 7 8 9 10 11 12 show ?thesis by (intro conjI)
qed

text \<open>
  The hypotheses hold for the selection \<open>en\<close> in the example registry, and for the
  selection \<open>ja\<close> in the registry of the source, where the secondary node \<open>en-us\<close>
  resolves to English through its primary \<open>en\<close> and is ranked with the distance
  \<open>0.82\<close>.
\<close>

theorem ranking_witness:
  "find (\<lambda>l. code l = ''en'') exampleNodes = Some node_en \<and>
   mainLanguageName exampleNodes node_en = Some ''English'' \<and>
   primaryCode node_en \<noteq> Some [] \<and>
   map_option (\<lambda>row. (row ''Japanese'', row ''Chinese'', row ''Korean'')) (rankingMatrix ''English'') =
     Some (Some (dbl 0.02), Some (dbl 0.1), Some (dbl 0.4)) \<and>
   sorted (map itemDistance (sortedSimilarities exampleNodes ''en'' rankingMatrix)) \<and>
   map (\<lambda>it. (itemCode it, itemDistance it, itemSimilarity it))
     (sortedSimilarities exampleNodes ''en'' rankingMatrix) =
     [(''ja'', dbl 0.02, dbl 0.98), (''zh'', dbl 0.1, dbl 0.9), (''ko'', dbl 0.4, dbl 0.6)] \<and>
   find (\<lambda>l. code l = ''ja'') LANGUAGE_LOCATIONS = Some node_ja \<and>
   mainLanguageName LANGUAGE_LOCATIONS node_ja = Some ''Japanese'' \<and>
   primaryCode node_ja \<noteq> Some [] \<and>
   map_option (\<lambda>row. row ''English'') (oneWayMatrix ''Japanese'') = Some (Some (dbl 0.82)) \<and>
   distinct (map code LANGUAGE_LOCATIONS) \<and>
   node_en_us \<in> set LANGUAGE_LOCATIONS \<and> node_en \<in> set LANGUAGE_LOCATIONS \<and>
   code node_en_us = ''en-us'' \<and> name node_en_us = ''English'' \<and>
   \<not> isPrimary node_en_us \<and> primaryCode node_en_us = Some (code node_en) \<and>
   name node_en = ''English'' \<and>
   mainLanguageName LANGUAGE_LOCATIONS node_en_us = Some (name node_en) \<and>
   (\<exists>it\<in>set (sortedSimilarities LANGUAGE_LOCATIONS ''ja'' oneWayMatrix).
      itemCode it = code node_en_us \<and> itemName it = name node_en_us \<and>
      itemDistance it = dbl 0.82 \<and> itemSimilarity it = js_sub 1 (dbl 0.82)) \<and>
   distinct (map itemCode (sortedSimilarities LANGUAGE_LOCATIONS ''ja'' oneWayMatrix)) \<and>
   map (\<lambda>it. (itemCode it, itemDistance it))
     (sortedSimilarities LANGUAGE_LOCATIONS ''ja'' oneWayMatrix) =
     [(''en'', dbl 0.82), (''en-us'', dbl 0.82), (''en-au'', dbl 0.82)]"
proof -
  let ?row = "[''English'' \<mapsto> 0, ''Japanese'' \<mapsto> dbl 0.02,
         ''Chinese'' \<mapsto> dbl 0.1, ''Korean'' \<mapsto> dbl 0.4]"
  have h: "find (\<lambda>l. code l = ''en'') exampleNodes = Some node_en"
    "mainLanguageName exampleNodes node_en = Some ''English''"
    "''English'' \<noteq> []"
    "rankingMatrix ''English'' = Some ?row"
    "primaryCode node_en \<noteq> Some []"
    by (simp_all add: example_defs mainLanguageName_def rankingMatrix_def)
  have r: "map_option (\<lambda>row. (row ''Japanese'', row ''Chinese'', row ''Korean''))
      (rankingMatrix ''English'') = Some (Some (dbl 0.02), Some (dbl 0.1), Some (dbl 0.4))"
    by (simp add: rankingMatrix_def)
  note t = ranking [where m = rankingMatrix and row = ?row, OF h]
  note 1 = t [THEN conjunct1]
  note 2 = t [THEN conjunct2, THEN conjunct2, THEN conjunct2, THEN conjunct1]
  let ?rowj = "[''English'' \<mapsto> dbl 0.82]"
  have k: "find (\<lambda>l. code l = ''ja'') LANGUAGE_LOCATIONS = Some node_ja"
    "mainLanguageName LANGUAGE_LOCATIONS node_ja = Some ''Japanese''"
    "''Japanese'' \<noteq> []"
    "oneWayMatrix ''Japanese'' = Some ?rowj"
    "primaryCode node_ja \<noteq> Some []"
    by (simp_all add: LANGUAGE_LOCATIONS_def node_ja_def mainLanguageName_def oneWayMatrix_def)
  have rj: "map_option (\<lambda>row. row ''English'') (oneWayMatrix ''Japanese'') =
      Some (Some (dbl 0.82))"
    by (simp add: oneWayMatrix_def)
  have "LANGUAGE_LOCATIONS ! 33 \<in> set LANGUAGE_LOCATIONS"
    by (rule nth_mem) (simp add: LANGUAGE_LOCATIONS_rows(4))
  then have n: "node_en_us \<in> set LANGUAGE_LOCATIONS"
    unfolding LANGUAGE_LOCATIONS_rows(3) .
  have "LANGUAGE_LOCATIONS ! 3 \<in> set LANGUAGE_LOCATIONS"
    by (rule nth_mem) (simp add: LANGUAGE_LOCATIONS_rows(4))
  then have p: "node_en \<in> set LANGUAGE_LOCATIONS"
    unfolding LANGUAGE_LOCATIONS_rows(1) .
  have f: "code node_en_us = ''en-us''" "name node_en_us = ''English''"
    "\<not> isPrimary node_en_us" "primaryCode node_en_us = Some (code node_en)"
    "name node_en = ''English''"
    by (simp_all add: node_en_us_def node_en_def)
  have res: "(if isPrimary node_en_us then node_en = node_en_us
           else primaryCode node_en_us = Some (code node_en))"
    by (simp add: node_en_us_def node_en_def)
  have e: "code node_en_us \<noteq> ''ja'' \<and> name node_en_us \<noteq> name node_ja \<and>
          primaryCode node_en_us \<noteq> Some ''ja'' \<and>
          primaryCode node_ja \<noteq> Some (code node_en_us) \<and>
          (primaryCode node_ja = None \<or> primaryCode node_en_us \<noteq> primaryCode node_ja) \<and>
          (if isPrimary node_en_us then node_en = node_en_us
           else primaryCode node_en_us = Some (code node_en)) \<and>
          name node_en \<noteq> [] \<and> ?rowj (name node_en) = Some (dbl 0.82)"
    by (simp add: node_en_us_def node_en_def node_ja_def)
  note u = ranking [where m = oneWayMatrix and row = ?rowj, OF k]
  note u6 = u [THEN conjunct2, THEN conjunct2, THEN conjunct2, THEN conjunct2, THEN conjunct2,
      THEN conjunct1, THEN mp, OF LANGUAGE_LOCATIONS_codes, THEN bspec, OF n, THEN bspec, OF p,
      THEN mp, OF res]
  note u7 = u [THEN conjunct2, THEN conjunct2, THEN conjunct2, THEN conjunct2, THEN conjunct2,
      THEN conjunct2, THEN conjunct1, THEN mp, OF LANGUAGE_LOCATIONS_codes, THEN bspec, OF n,
      THEN bspec, OF p, THEN spec, THEN mp, OF e]
  note u9 = u [THEN conjunct2, THEN conjunct2, THEN conjunct2, THEN conjunct2, THEN conjunct2,
      THEN conjunct2, THEN conjunct2, THEN conjunct2, THEN conjunct1, THEN mp,
      OF LANGUAGE_LOCATIONS_codes]
  note u12 = u [THEN conjunct2, THEN conjunct2, THEN conjunct2, THEN conjunct2, THEN conjunct2,
      THEN conjunct2, THEN conjunct2, THEN conjunct2, THEN conjunct2, THEN conjunct2,
      THEN conjunct2]
  show ?thesis
    by (intro conjI)
      (fact h(1) h(2) h(5) r 1 2 k(1) k(2) k(5) rj LANGUAGE_LOCATIONS_codes n p f u6 u7 u9 u12)+
qed

text \<open>
  C10. When the matrix has no row for the name the selected node resolves to, the
  ranking is empty, whatever the other rows hold.
\<close>

theorem ranking_without_row:
  assumes "find (\<lambda>l. code l = c) ns = Some s"
    and "mainLanguageName ns s = Some L" "m L = None"
  shows "sortedSimilarities ns c m = []"
  using assms by (simp add: sortedSimilarities_def Let_def)

theorem ranking_without_row_witness:
  "find (\<lambda>l. code l = ''en'') exampleNodes = Some node_en \<and>
   mainLanguageName exampleNodes node_en = Some ''English'' \<and>
   oneWayMatrix ''English'' = None \<and>
   map_option (\<lambda>row. row ''English'') (oneWayMatrix ''Japanese'') = Some (Some (dbl 0.82)) \<and>
   sortedSimilarities exampleNodes ''en'' oneWayMatrix = []"
proof -
  have h: "find (\<lambda>l. code l = ''en'') exampleNodes = Some node_en"
    "mainLanguageName exampleNodes node_en = Some ''English''"
    "oneWayMatrix ''English'' = None"
    by (simp_all add: example_defs mainLanguageName_def)
  have r: "map_option (\<lambda>row. row ''English'') (oneWayMatrix ''Japanese'') = Some (Some (dbl 0.82))"
    by (simp add: oneWayMatrix_def)
  from h r ranking_without_row [where m = oneWayMatrix, OF h] show ?thesis by (intro conjI)
qed


section \<open>The word-order summary\<close>




end
